theory Spec2Isabelle
  imports Main "HOL-Library.Word"
begin

section \<open>Token codec (encrypt-decrypt-js)\<close>

text \<open>
  A JavaScript string is modelled by the bytes of its UTF-8 form (a HOL \<open>string\<close>),
  a \<open>Uint8Array\<close> by a list of 8-bit words. Exceptions are values of \<open>error\<close>;
  a function that can throw returns \<open>error + 'a\<close> with \<open>Inl\<close> for the exception.
\<close>

type_synonym bytes = "8 word list"

datatype error =
    InvalidCharacterError
  | OperationError
  | ConstraintError
  | StoreUnavailable

definition byte_of_char :: "char \<Rightarrow> 8 word" where
  "byte_of_char c = of_nat (of_char c)"

definition char_of_byte :: "8 word \<Rightarrow> char" where
  "char_of_byte w = char_of (unat w)"

text \<open>\<open>new TextEncoder().encode(s)\<close>: the UTF-8 bytes of the string.\<close>

definition TextEncoder_encode :: "string \<Rightarrow> bytes" where
  "TextEncoder_encode s = map byte_of_char s"

text \<open>
  \<open>new TextDecoder().decode(b)\<close>: the decoder is built with its defaults, so
  \<open>ignoreBOM\<close> is false and a leading byte order mark \<open>EF BB BF\<close> is consumed, not
  returned. (Replacement of ill-formed sequences by U+FFFD is outside this model: the
  bytes reaching the decoder are the plaintext of an authenticated ciphertext.)
\<close>

definition utf8_bom :: bytes where
  "utf8_bom = [0xEF, 0xBB, 0xBF]"

definition TextDecoder_decode :: "bytes \<Rightarrow> string" where
  "TextDecoder_decode b =
     map char_of_byte (if take 3 b = utf8_bom then drop 3 b else b)"

text \<open>
  The Web Crypto primitives the codec calls are parameters of the model:
  \<open>crypto.subtle.importKey\<close> + \<open>deriveKey\<close> (PBKDF2 with SHA-256),
  \<open>crypto.subtle.digest\<close> (SHA-256) and \<open>crypto.subtle.encrypt\<close> /
  \<open>decrypt\<close> (AES-GCM, whose decryption rejects a ciphertext that does not
  authenticate).
\<close>

record webcrypto =
  pbkdf2 :: "bytes \<Rightarrow> bytes \<Rightarrow> nat \<Rightarrow> bytes"
  sha256 :: "bytes \<Rightarrow> bytes"
  aes_gcm_encrypt :: "bytes \<Rightarrow> bytes \<Rightarrow> bytes \<Rightarrow> bytes"
  aes_gcm_decrypt :: "bytes \<Rightarrow> bytes \<Rightarrow> bytes \<Rightarrow> bytes option"

text \<open>
  What the codec relies on: AES-GCM decryption under the key and IV of the encryption
  returns the plaintext, and a SHA-256 digest has 32 bytes.
\<close>

definition webcrypto_ok :: "webcrypto \<Rightarrow> bool" where
  "webcrypto_ok wc \<longleftrightarrow>
     (\<forall>k iv p. aes_gcm_decrypt wc k iv (aes_gcm_encrypt wc k iv p) = Some p) \<and>
     (\<forall>d. length (sha256 wc d) = 32)"

definition IV_LENGTH :: nat where
  "IV_LENGTH = 12"

definition deriveKey :: "webcrypto \<Rightarrow> string \<Rightarrow> bytes" where
  "deriveKey wc secret =
     pbkdf2 wc (TextEncoder_encode secret) (TextEncoder_encode ''deterministic-salt'') 100000"

definition generateIV :: "webcrypto \<Rightarrow> string \<Rightarrow> bytes" where
  "generateIV wc accessToken = take IV_LENGTH (sha256 wc (TextEncoder_encode accessToken))"

subsection \<open>Base64 (\<open>btoa\<close>, \<open>atob\<close>) and the URL-safe variant\<close>

definition b64chars :: string where
  "b64chars = ''ABCDEFGHIJKLMNOPQRSTUVWXYZabcdefghijklmnopqrstuvwxyz0123456789+/''"

definition b64char :: "nat \<Rightarrow> char" where
  "b64char n = b64chars ! n"

fun index_of :: "'a \<Rightarrow> 'a list \<Rightarrow> nat option" where
  "index_of x [] = None"
| "index_of x (y # ys) =
     (if x = y then Some 0 else map_option Suc (index_of x ys))"

definition b64index :: "char \<Rightarrow> nat option" where
  "b64index c = index_of c b64chars"

fun b64_sextets :: "bytes \<Rightarrow> nat list" where
  "b64_sextets (a # b # c # r) =
     [unat a div 4, (unat a mod 4) * 16 + unat b div 16,
      (unat b mod 16) * 4 + unat c div 64, unat c mod 64] @ b64_sextets r"
| "b64_sextets [a, b] =
     [unat a div 4, (unat a mod 4) * 16 + unat b div 16, (unat b mod 16) * 4]"
| "b64_sextets [a] = [unat a div 4, (unat a mod 4) * 16]"
| "b64_sextets [] = []"

text \<open>
  \<open>btoa\<close> of the binary string built by \<open>String.fromCharCode\<close> over the bytes:
  four characters for every three bytes, padded with \<open>=\<close>.
\<close>

definition btoa :: "bytes \<Rightarrow> string" where
  "btoa b = map b64char (b64_sextets b) @ replicate ((3 - length b mod 3) mod 3) (CHR ''='')"

fun b64_bytes :: "nat list \<Rightarrow> bytes" where
  "b64_bytes (s1 # s2 # s3 # s4 # r) =
     [of_nat (s1 * 4 + s2 div 16), of_nat ((s2 mod 16) * 16 + s3 div 4),
      of_nat ((s3 mod 4) * 64 + s4)] @ b64_bytes r"
| "b64_bytes [s1, s2, s3] =
     [of_nat (s1 * 4 + s2 div 16), of_nat ((s2 mod 16) * 16 + s3 div 4)]"
| "b64_bytes [s1, s2] = [of_nat (s1 * 4 + s2 div 16)]"
| "b64_bytes [s1] = []"
| "b64_bytes [] = []"

definition ascii_whitespace :: "char \<Rightarrow> bool" where
  "ascii_whitespace c \<longleftrightarrow> c \<in> {CHR 0x09, CHR 0x0A, CHR 0x0C, CHR 0x0D, CHR 0x20}"

definition strip_padding :: "string \<Rightarrow> string" where
  "strip_padding d =
     (if length d mod 4 = 0 \<and> d \<noteq> [] \<and> last d = CHR ''='' then
        (if butlast d \<noteq> [] \<and> last (butlast d) = CHR ''='' then butlast (butlast d)
         else butlast d)
      else d)"

text \<open>
  \<open>atob\<close> (forgiving-base64 decode): ASCII whitespace is dropped, one or two
  trailing \<open>=\<close> are removed when the length is a multiple of four, and the call throws
  InvalidCharacterError on a length of 1 modulo 4 or a character outside the alphabet.
\<close>

definition atob :: "string \<Rightarrow> error + bytes" where
  "atob data =
     (let d = strip_padding (filter (\<lambda>c. \<not> ascii_whitespace c) data)
      in if length d mod 4 = 1 then Inl InvalidCharacterError
         else (case those (map b64index d) of
                 None \<Rightarrow> Inl InvalidCharacterError
               | Some sx \<Rightarrow> Inr (b64_bytes sx)))"

definition replaceAll :: "char \<Rightarrow> string \<Rightarrow> string \<Rightarrow> string" where
  "replaceAll c r s = concat (map (\<lambda>x. if x = c then r else [x]) s)"

definition padEnd :: "string \<Rightarrow> nat \<Rightarrow> char \<Rightarrow> string" where
  "padEnd s n c = s @ replicate (n - length s) c"

definition arrayBufferToBase64Url :: "bytes \<Rightarrow> string" where
  "arrayBufferToBase64Url buffer =
     replaceAll (CHR ''='') []
       (replaceAll (CHR ''/'') ''_'' (replaceAll (CHR ''+'') ''-'' (btoa buffer)))"

definition base64UrlToArrayBuffer :: "string \<Rightarrow> error + bytes" where
  "base64UrlToArrayBuffer base64url =
     atob (padEnd (replaceAll (CHR ''_'') ''/'' (replaceAll (CHR ''-'') ''+'' base64url))
             (length base64url + ((4 - (length base64url mod 4)) mod 4)) (CHR ''=''))"

subsection \<open>\<open>encryptToken\<close> and \<open>decryptToken\<close>\<close>

definition encryptToken :: "webcrypto \<Rightarrow> string \<Rightarrow> string \<Rightarrow> string" where
  "encryptToken wc token secret =
     (let key = deriveKey wc secret;
          iv = generateIV wc token;
          encrypted = aes_gcm_encrypt wc key iv (TextEncoder_encode token);
          combined = iv @ encrypted
      in arrayBufferToBase64Url combined)"

definition decryptToken :: "webcrypto \<Rightarrow> string \<Rightarrow> string \<Rightarrow> error + string" where
  "decryptToken wc cipherText secret =
     (let key = deriveKey wc secret
      in case base64UrlToArrayBuffer cipherText of
           Inl e \<Rightarrow> Inl e
         | Inr combined \<Rightarrow>
             (let iv = take IV_LENGTH combined;
                  encrypted = drop IV_LENGTH combined
              in case aes_gcm_decrypt wc key iv encrypted of
                   None \<Rightarrow> Inl OperationError
                 | Some decrypted \<Rightarrow> Inr (TextDecoder_decode decrypted)))"

section \<open>Data model (middleware.ts)\<close>

text \<open>
  A row of the \<open>users\<close> table, which is also the \<open>StripeUser\<close> object the queries
  return. A nullable column (and a JavaScript \<open>null\<close> or \<open>undefined\<close>) is \<open>None\<close>;
  \<open>balance\<close> is an integer number of cents. \<open>client_reference_id\<close> is nullable in
  the table although the TypeScript type declares it a string.
\<close>

record StripeUser =
  access_token :: string
  verified_user_access_token :: "string option"
  client_reference_id :: "string option"
  name :: "string option"
  balance :: int
  email :: "string option"
  card_fingerprint :: "string option"
  verified_email :: "string option"

record Env =
  DB_SECRET :: string
  STRIPE_WEBHOOK_SIGNING_SECRET :: string
  STRIPE_SECRET :: string
  STRIPE_PUBLISHABLE_KEY :: string
  STRIPE_PAYMENT_LINK :: string
  SKIP_LOGIN :: "string option"

definition AGGREGATE_NAME :: string where
  "AGGREGATE_NAME = ''admin-readonly''"

definition DO_PREFIX :: string where
  "DO_PREFIX = ''user-''"

text \<open>JavaScript truthiness of a string that may be \<open>null\<close>: present and not empty.\<close>

fun truthy :: "string option \<Rightarrow> bool" where
  "truthy None = False"
| "truthy (Some v) = (v \<noteq> [])"

text \<open>\<open>v || null\<close>\<close>

definition or_null :: "string option \<Rightarrow> string option" where
  "or_null v = (if truthy v then v else None)"

section \<open>The storage collaborator\<close>

text \<open>
  Modelled from the spec: the storage engine (the \<open>dormroom\<close> client and the durable
  objects behind it) is not part of the repository. The spec (sections 2, 4.2, 5, 6)
  gives its contract: named shards, each executing one parameterised statement at a
  time and returning the rows affected and at most one result row; a client that
  addresses a user's shard writes through to the aggregate shard as a best-effort
  mirror, whose failure is not reported to the caller; a storage fault surfaces as an
  error to the caller. A shard is a list of rows in insertion order with
  \<open>access_token\<close> as primary key. Faults are transient (section 5): \<open>unavailable\<close>
  holds the shards that the next statement cannot reach, and \<open>outages\<close> holds, for each
  statement after it in order, the shards that cannot be reached then. Every statement,
  whether it takes effect or fails, moves the store on to the next entry of \<open>outages\<close>;
  once \<open>outages\<close> is used up the reachable shards stay as they are.
\<close>

record store =
  tables :: "string \<Rightarrow> StripeUser list"
  unavailable :: "string set"
  outages :: "string set list"

definition elapse :: "store \<Rightarrow> store" where
  "elapse s =
     (case outages s of
        [] \<Rightarrow> s
      | u # us \<Rightarrow> s\<lparr>unavailable := u, outages := us\<rparr>)"


datatype stmt =
    SelectWhere "StripeUser \<Rightarrow> bool"
  | UpdateWhere "StripeUser \<Rightarrow> StripeUser" "StripeUser \<Rightarrow> bool"
  | InsertRow StripeUser
  | DeleteWhere "StripeUser \<Rightarrow> bool"

record exec_result =
  one :: "StripeUser option"
  rowsWritten :: nat

fun run_stmt :: "stmt \<Rightarrow> StripeUser list \<Rightarrow> error + (exec_result \<times> StripeUser list)" where
  "run_stmt (SelectWhere p) t = Inr (\<lparr>one = find p t, rowsWritten = 0\<rparr>, t)"
| "run_stmt (UpdateWhere f p) t =
     Inr (\<lparr>one = None, rowsWritten = length (filter p t)\<rparr>,
          map (\<lambda>r. if p r then f r else r) t)"
| "run_stmt (InsertRow r) t =
     (if access_token r \<in> set (map access_token t) then Inl ConstraintError
      else Inr (\<lparr>one = None, rowsWritten = 1\<rparr>, t @ [r]))"
| "run_stmt (DeleteWhere p) t =
     Inr (\<lparr>one = None, rowsWritten = length (filter p t)\<rparr>, filter (\<lambda>r. \<not> p r) t)"

text \<open>The write-through to the mirrors: a mirror that fails is skipped.\<close>

fun mirror :: "stmt \<Rightarrow> string list \<Rightarrow> store \<Rightarrow> store" where
  "mirror q [] s = s"
| "mirror q (m # ms) s =
     mirror q ms
       (if m \<in> unavailable s then s
        else (case run_stmt q (tables s m) of
                Inl e \<Rightarrow> s
              | Inr (res, t') \<Rightarrow> s\<lparr>tables := (tables s)(m := t')\<rparr>))"

text \<open>
  \<open>client.exec(sql, ...params)\<close> on a client created with
  \<open>createClient({configs: [{name: main}, {name: mirror}, ...]})\<close>; a client is the list
  of its shard names. The result is the error thrown or the result of the statement,
  and the store afterwards; a statement that throws has had no effect on the rows.
\<close>

type_synonym StripeflareClient = "string list"

fun exec :: "StripeflareClient \<Rightarrow> stmt \<Rightarrow> store \<Rightarrow> (error + exec_result) \<times> store" where
  "exec [] q s = (Inl StoreUnavailable, elapse s)"
| "exec (main # mirrors) q s =
     (if main \<in> unavailable s then (Inl StoreUnavailable, elapse s)
      else (case run_stmt q (tables s main) of
              Inl e \<Rightarrow> (Inl e, elapse s)
            | Inr (res, t') \<Rightarrow>
                (Inr res, elapse (mirror q mirrors (s\<lparr>tables := (tables s)(main := t')\<rparr>)))))"

text \<open>The row that \<open>SELECT * FROM users WHERE access_token = ?\<close> finds in a shard.\<close>

definition rowOf :: "store \<Rightarrow> string \<Rightarrow> string \<Rightarrow> StripeUser option" where
  "rowOf s shard token = find (\<lambda>r. access_token r = token) (tables s shard)"

section \<open>Routing\<close>

definition getClientReferenceId :: "webcrypto \<Rightarrow> string \<Rightarrow> string \<Rightarrow> string" where
  "getClientReferenceId wc token secret = encryptToken wc token secret"

definition getDOName :: "string \<Rightarrow> string" where
  "getDOName cri = DO_PREFIX @ cri"

text \<open>The shard name \<open>`${version}-${doName}`\<close>.\<close>

definition shardName :: "string \<Rightarrow> string \<Rightarrow> string" where
  "shardName version doName = version @ ''-'' @ doName"

text \<open>
  \<open>createClient({configs: [{name: `${version}-${doName}`},
  {name: `${version}-${AGGREGATE_NAME}`}]})\<close>
\<close>

definition userClient :: "string \<Rightarrow> string \<Rightarrow> StripeflareClient" where
  "userClient version doName = [shardName version doName, shardName version AGGREGATE_NAME]"

definition aggregateClient :: "string \<Rightarrow> StripeflareClient" where
  "aggregateClient version = [shardName version AGGREGATE_NAME]"

section \<open>Session resolution (\<open>handleUserSession\<close>)\<close>

text \<open>
  The request as the middleware reads it. \<open>cookie_access_token\<close> is
  \<open>cookies.access_token\<close> after \<open>parseCookies\<close> (absent when there is no Cookie header
  or no such cookie); \<open>authorization\<close> is the Authorization header.
\<close>

record Request =
  request_method :: string
  pathname :: string
  hostname :: string
  authorization :: "string option"
  cookie_access_token :: "string option"
  stripe_signature :: "string option"
  request_body :: "string option"

definition ascii_lower :: "char \<Rightarrow> char" where
  "ascii_lower c =
     (case map_of (zip ''ABCDEFGHIJKLMNOPQRSTUVWXYZ'' ''abcdefghijklmnopqrstuvwxyz'') c of
        None \<Rightarrow> c
      | Some l \<Rightarrow> l)"

definition bearerToken :: "Request \<Rightarrow> string option" where
  "bearerToken req =
     (case authorization req of
        None \<Rightarrow> None
      | Some h \<Rightarrow>
          (if map ascii_lower (take (length ''bearer '') h) = ''bearer ''
           then Some (drop (length ''Bearer '') h) else None))"

text \<open>\<open>bearerToken || cookies.access_token\<close>\<close>

definition requestAccessToken :: "Request \<Rightarrow> string option" where
  "requestAccessToken req =
     (if truthy (bearerToken req) then bearerToken req else cookie_access_token req)"

definition is_hex :: "char \<Rightarrow> bool" where
  "is_hex c \<longleftrightarrow> c \<in> set ''0123456789abcdefABCDEF''"

text \<open>
  \<open>/^[0-9a-f]{8}-[0-9a-f]{4}-[0-9a-f]{4}-[0-9a-f]{4}-[0-9a-f]{12}$/i\<close>
\<close>

definition uuidGeneralRegex :: "string \<Rightarrow> bool" where
  "uuidGeneralRegex t \<longleftrightarrow>
     length t = 36 \<and>
     list_all (\<lambda>i. if i \<in> {8, 13, 18, 23} then t ! i = CHR ''-'' else is_hex (t ! i)) [0..<36]"

definition cookieSuffix :: "Env \<Rightarrow> string \<Rightarrow> string" where
  "cookieSuffix env host =
     (let skipLogin = (SKIP_LOGIN env = Some ''true'');
          securePart = (if skipLogin then [] else '' Secure;'');
          domainPart = (if skipLogin then [] else '' Domain='' @ host @ '';'')
      in '';'' @ domainPart @ '' HttpOnly; Path=/;'' @ securePart @
         '' Max-Age=34560000; SameSite=Lax'')"

text \<open>
  The state of the \<open>try\<close> block of \<open>handleUserSession\<close> when it is left:
  the (possibly reassigned) \<open>accessToken\<close>, \<open>user\<close>, \<open>client\<close> and the store.
\<close>

record lookup =
  lk_accessToken :: string
  lk_user :: "StripeUser option"
  lk_client :: "StripeflareClient option"
  lk_store :: store

text \<open>The \<open>catch\<close> block: \<open>client = undefined; user = null\<close>.\<close>

definition caught :: "string \<Rightarrow> store \<Rightarrow> lookup" where
  "caught accessToken s =
     \<lparr>lk_accessToken = accessToken, lk_user = None, lk_client = None, lk_store = s\<rparr>"

text \<open>
  \<open>if (user) { ... }\<close>: recompute \<open>client_reference_id\<close> and write it back when the
  stored one differs.
\<close>

definition refreshClientReferenceId ::
  "webcrypto \<Rightarrow> Env \<Rightarrow> string \<Rightarrow> StripeUser option \<Rightarrow> StripeflareClient \<Rightarrow> store \<Rightarrow> lookup" where
  "refreshClientReferenceId wc env accessToken user client s =
     (case user of
        None \<Rightarrow>
          \<lparr>lk_accessToken = accessToken, lk_user = None, lk_client = Some client, lk_store = s\<rparr>
      | Some u \<Rightarrow>
          (let cri = encryptToken wc accessToken (DB_SECRET env)
           in if client_reference_id u \<noteq> Some cri then
                (case exec client
                        (UpdateWhere (\<lambda>r. r\<lparr>client_reference_id := Some cri\<rparr>)
                                     (\<lambda>r. access_token r = accessToken)) s of
                   (Inl e, s') \<Rightarrow> caught accessToken s'
                 | (Inr res, s') \<Rightarrow>
                     \<lparr>lk_accessToken = accessToken,
                      lk_user = Some (u\<lparr>client_reference_id := Some cri\<rparr>),
                      lk_client = Some client, lk_store = s'\<rparr>)
              else
                \<lparr>lk_accessToken = accessToken, lk_user = Some u, lk_client = Some client,
                 lk_store = s\<rparr>))"

text \<open>
  The first part of the \<open>try\<close> block: read the row of the credential and, when it
  carries a forwarding pointer, switch to the pointer's target and read that row. The
  result is \<open>accessToken\<close>, \<open>user\<close>, \<open>client\<close> and the store, or, when a
  query throws, the \<open>accessToken\<close> and the store at that moment.
\<close>

definition findUser ::
  "webcrypto \<Rightarrow> Env \<Rightarrow> string \<Rightarrow> string \<Rightarrow> store \<Rightarrow>
   (string \<times> store) + (string \<times> StripeUser option \<times> StripeflareClient \<times> store)" where
  "findUser wc env version accessToken s =
     (let clientReferenceId = getClientReferenceId wc accessToken (DB_SECRET env);
          cl = userClient version (getDOName clientReferenceId)
      in case exec cl (SelectWhere (\<lambda>r. access_token r = accessToken)) s of
           (Inl e, s1) \<Rightarrow> Inl (accessToken, s1)
         | (Inr userResult, s1) \<Rightarrow>
             (case one userResult of
                None \<Rightarrow> Inr (accessToken, None, cl, s1)
              | Some u \<Rightarrow>
                  (case verified_user_access_token u of
                     None \<Rightarrow> Inr (accessToken, Some u, cl, s1)
                   | Some verified \<Rightarrow>
                       (if verified = [] then Inr (accessToken, Some u, cl, s1)
                        else
                          (let verifiedClient =
                                 userClient version
                                   (getDOName
                                      (getClientReferenceId wc verified (DB_SECRET env)))
                           in case exec verifiedClient
                                     (SelectWhere (\<lambda>r. access_token r = verified)) s1 of
                                (Inl e, s2) \<Rightarrow> Inl (verified, s2)
                              | (Inr verifiedUserResult, s2) \<Rightarrow>
                                  Inr (verified, one verifiedUserResult, verifiedClient, s2))))))"

text \<open>The \<open>try\<close> block for a present credential, with its \<open>catch\<close>.\<close>

definition lookupUser :: "webcrypto \<Rightarrow> Env \<Rightarrow> string \<Rightarrow> string \<Rightarrow> store \<Rightarrow> lookup" where
  "lookupUser wc env version accessToken s =
     (case findUser wc env version accessToken s of
        Inl (token, s') \<Rightarrow> caught token s'
      | Inr (token, u, cl, s') \<Rightarrow> refreshClientReferenceId wc env token u cl s')"

record session =
  user :: StripeUser
  client :: "StripeflareClient option"
  headers :: "(string \<times> string) list"

text \<open>
  The first half of \<open>handleUserSession\<close>: the credential of the request and, when
  there is one, the \<open>try\<close> block.
\<close>

definition sessionLookup :: "webcrypto \<Rightarrow> Env \<Rightarrow> string \<Rightarrow> Request \<Rightarrow> store \<Rightarrow> lookup" where
  "sessionLookup wc env version req s =
     (case requestAccessToken req of
        None \<Rightarrow> caught [] s
      | Some t \<Rightarrow> if t = [] then caught [] s else lookupUser wc env version t s)"

text \<open>
  The user object built when no user was found:
  \<open>{ access_token: accessToken, balance: 0, email: null, client_reference_id }\<close>.
\<close>

definition unpersistedUser :: "webcrypto \<Rightarrow> Env \<Rightarrow> string \<Rightarrow> StripeUser" where
  "unpersistedUser wc env accessToken =
     \<lparr>access_token = accessToken, verified_user_access_token = None,
      client_reference_id = Some (encryptToken wc accessToken (DB_SECRET env)),
      name = None, balance = 0, email = None, card_fingerprint = None,
      verified_email = None\<rparr>"

text \<open>
  \<open>handleUserSession\<close>. \<open>uuid\<close> is what \<open>crypto.randomUUID()\<close> returns if it is
  called. The result is the session and the store after the call.
\<close>

definition handleUserSession ::
  "webcrypto \<Rightarrow> Env \<Rightarrow> string \<Rightarrow> Request \<Rightarrow> string \<Rightarrow> store \<Rightarrow> session \<times> store" where
  "handleUserSession wc env version req uuid s =
     (let lk = sessionLookup wc env version req s;
          u = (case lk_user lk of
                 Some found \<Rightarrow> found
               | None \<Rightarrow>
                   unpersistedUser wc env
                     (if lk_accessToken lk = [] \<or> \<not> uuidGeneralRegex (lk_accessToken lk)
                      then uuid else lk_accessToken lk))
      in (\<lparr>user = u, client = lk_client lk,
           headers = [(''Set-Cookie'',
                       ''access_token='' @ access_token u @ cookieSuffix env (hostname req))]\<rparr>,
          lk_store lk))"

section \<open>Responses and the collaborators of the HTTP shell\<close>

datatype json = JNull | JNum int | JStr string | JBool bool

text \<open>
  A response body is a text or the object handed to \<open>JSON.stringify\<close> (its keys in
  order, a key whose value is \<open>undefined\<close> left out, as \<open>JSON.stringify\<close> does).
\<close>

datatype body = Text string | Json "(string \<times> json) list"

record Response =
  status :: nat
  response_headers :: "(string \<times> string) list"
  response_body :: body

definition textResponse :: "nat \<Rightarrow> string \<Rightarrow> Response" where
  "textResponse st msg = \<lparr>status = st, response_headers = [], response_body = Text msg\<rparr>"

definition jsonErrorResponse :: "nat \<Rightarrow> string \<Rightarrow> Response" where
  "jsonErrorResponse st msg =
     \<lparr>status = st, response_headers = [(''Content-Type'', ''application/json'')],
      response_body = Json [(''error'', JStr msg)]\<rparr>"

text \<open>The fields of the Stripe objects that the webhook reads.\<close>

record customer_details =
  cd_email :: "string option"
  cd_name :: "string option"

record checkout_session =
  payment_status :: string
  amount_total :: "int option"
  session_client_reference_id :: "string option"
  session_customer_details :: "customer_details option"
  payment_intent :: "string option"

record stripe_event =
  event_type :: string
  event_object :: checkout_session

record payment_method_details =
  pmd_type :: string
  pmd_card_fingerprint :: "string option"

text \<open>
  The calls into the Stripe SDK, the database API of the storage client
  (\<open>client.middleware\<close>) and JavaScript's \<open>Number\<close> conversion (\<open>None\<close> for NaN) are
  parameters of the model. Amounts are whole cents, as the \<open>balance\<close> column is, so
  \<open>Number\<close> yields an integer; a header with a fractional value is not covered. \<open>constructEventAsync\<close> returns the verified event or the
  message of the error it throws; \<open>paymentIntents_retrieve\<close> returns the
  \<open>latest_charge\<close> of the payment intent and \<open>charges_retrieve\<close> the
  \<open>payment_method_details\<close> of the charge.
\<close>

datatype stripe_error = StripeError

record platform =
  constructEventAsync :: "string \<Rightarrow> string \<Rightarrow> string \<Rightarrow> string + stripe_event"
  paymentIntents_retrieve :: "string option \<Rightarrow> stripe_error + string option"
  charges_retrieve :: "string option \<Rightarrow> stripe_error + payment_method_details option"
  client_middleware ::
    "StripeflareClient \<Rightarrow> string \<Rightarrow> string \<Rightarrow> string \<Rightarrow> Request \<Rightarrow> store \<Rightarrow> Response option \<times> store"
  Number :: "string \<Rightarrow> int option"

text \<open>An exception that leaves a handler uncaught, or the value it returns.\<close>

datatype 'a outcome = Uncaught | Threw error | Returned 'a

section \<open>Charging (\<open>charge\<close>, \<open>chargeUser\<close>)\<close>

record charge_result =
  charged :: bool
  message :: string

text \<open>
  \<open>UPDATE users SET balance = balance - ? WHERE access_token = ?\<close> and
  \<open>UPDATE users SET balance = balance - ? WHERE access_token = ? and balance >= ?\<close>
\<close>

definition chargeStatement :: "int \<Rightarrow> string \<Rightarrow> bool \<Rightarrow> stmt" where
  "chargeStatement amountCent token allowNegativeBalance =
     (if allowNegativeBalance then
        UpdateWhere (\<lambda>r. r\<lparr>balance := balance r - amountCent\<rparr>)
                    (\<lambda>r. access_token r = token)
      else
        UpdateWhere (\<lambda>r. r\<lparr>balance := balance r - amountCent\<rparr>)
                    (\<lambda>r. access_token r = token \<and> balance r \<ge> amountCent))"

text \<open>
  The \<open>charge\<close> closure of \<open>stripeBalanceMiddleware\<close>, over the \<open>client\<close> and
  \<open>user\<close> of the session.
\<close>

definition charge ::
  "StripeflareClient option \<Rightarrow> StripeUser \<Rightarrow> int \<Rightarrow> bool \<Rightarrow> store \<Rightarrow> charge_result outcome \<times> store" where
  "charge cl usr amountCent allowNegativeBalance s =
     (case cl of
        None \<Rightarrow>
          (Returned \<lparr>charged = False,
                     message = ''User is not signed up yet and cannot be charged''\<rparr>, s)
      | Some c \<Rightarrow>
          (if access_token usr = [] then
             (Returned \<lparr>charged = False,
                        message = ''User is not signed up yet and cannot be charged''\<rparr>, s)
           else
             (case exec c (chargeStatement amountCent (access_token usr) allowNegativeBalance) s of
                (Inl e, s') \<Rightarrow> (Threw e, s')
              | (Inr result, s') \<Rightarrow>
                  (if rowsWritten result = 0 then
                     (Returned \<lparr>charged = False, message = ''User balance too low''\<rparr>, s')
                   else
                     (Returned \<lparr>charged = True, message = ''Successfully charged''\<rparr>, s')))))"

definition chargeUser ::
  "webcrypto \<Rightarrow> Env \<Rightarrow> string \<Rightarrow> string \<Rightarrow> int \<Rightarrow> bool \<Rightarrow> store \<Rightarrow> charge_result outcome \<times> store" where
  "chargeUser wc env user_access_token version amountCent allowNegativeBalance s =
     (let clientReferenceId = getClientReferenceId wc user_access_token (DB_SECRET env);
          c = userClient version (getDOName clientReferenceId)
      in if user_access_token = [] then
           (Returned \<lparr>charged = False,
                      message = ''User is not signed up yet and cannot be charged''\<rparr>, s)
         else
           (case exec c (chargeStatement amountCent user_access_token allowNegativeBalance) s of
              (Inl e, s') \<Rightarrow> (Threw e, s')
            | (Inr result, s') \<Rightarrow>
                (if rowsWritten result = 0 then
                   (Returned \<lparr>charged = False, message = ''User balance too low''\<rparr>, s')
                 else
                   (Returned \<lparr>charged = True, message = ''Successfully charged''\<rparr>, s'))))"

section \<open>Payment reconciliation (\<open>handleStripeWebhook\<close>)\<close>

text \<open>
  \<open>UPDATE users SET balance = balance + ?, email = ?, name = ? WHERE access_token = ?\<close>
\<close>

definition creditStatement :: "int \<Rightarrow> string \<Rightarrow> string option \<Rightarrow> string \<Rightarrow> stmt" where
  "creditStatement amount mail nm token =
     UpdateWhere (\<lambda>r. r\<lparr>balance := balance r + amount, email := Some mail, name := nm\<rparr>)
                 (\<lambda>r. access_token r = token)"

text \<open>
  \<open>INSERT INTO users (access_token, verified_user_access_token) VALUES (?, ?)\<close>:
  the other columns take their defaults (\<open>balance\<close> 0, the rest NULL).
\<close>

definition stubRow :: "string \<Rightarrow> string \<Rightarrow> StripeUser" where
  "stubRow token verified =
     \<lparr>access_token = token, verified_user_access_token = Some verified,
      client_reference_id = None, name = None, balance = 0, email = None,
      card_fingerprint = None, verified_email = None\<rparr>"

text \<open>
  The two lookups in the aggregate shard for a user with the verified email, then for a
  user with the card fingerprint, and the value of
  \<open>userFromEmail?.access_token || userFromFingerprint?.access_token\<close>.
\<close>

definition findAlternate ::
  "string \<Rightarrow> string option \<Rightarrow> string option \<Rightarrow> store \<Rightarrow> (error + string option) \<times> store" where
  "findAlternate version verified fingerprint s0 =
     (case (if truthy verified
            then apfst (map_sum id one)
                   (exec (aggregateClient version)
                      (SelectWhere (\<lambda>r. verified_email r = verified)) s0)
            else (Inr None, s0)) of
        (Inl e, s1) \<Rightarrow> (Inl e, s1)
      | (Inr userFromEmail, s1) \<Rightarrow>
          (case (if truthy fingerprint
                 then apfst (map_sum id one)
                        (exec (aggregateClient version)
                           (SelectWhere (\<lambda>r. card_fingerprint r = fingerprint)) s1)
                 else (Inr None, s1)) of
             (Inl e, s2) \<Rightarrow> (Inl e, s2)
           | (Inr userFromFingerprint, s2) \<Rightarrow>
               (Inr (if truthy (map_option access_token userFromEmail)
                     then map_option access_token userFromEmail
                     else map_option access_token userFromFingerprint), s2)))"

text \<open>
  The part of the handler after the checks of the event: \<open>token\<close> is the decrypted
  \<open>client_reference_id\<close>, \<open>mail\<close> is \<open>customer_details.email\<close>.
\<close>

definition reconcile ::
  "webcrypto \<Rightarrow> platform \<Rightarrow> Env \<Rightarrow> string \<Rightarrow> checkout_session \<Rightarrow> string \<Rightarrow> string \<Rightarrow> int \<Rightarrow>
   string \<Rightarrow> string option \<Rightarrow> store \<Rightarrow> Response outcome \<times> store" where
  "reconcile wc pf env version sess cri token amount mail nm s =
     (case exec (aggregateClient version) (SelectWhere (\<lambda>r. access_token r = token)) s of
        (Inl e, s0) \<Rightarrow> (Threw e, s0)
      | (Inr userResult, s0) \<Rightarrow>
     (let doName = getDOName cri in
      case one userResult of
        Some userFromAccessToken \<Rightarrow>
          (case exec (userClient version doName)
                  (creditStatement amount mail (or_null nm) token) s0 of
             (Inl e, s1) \<Rightarrow> (Threw e, s1)
           | (Inr res, s1) \<Rightarrow> (Returned (textResponse 200 ''Payment processed successfully''), s1))
      | None \<Rightarrow>
     (case paymentIntents_retrieve pf (payment_intent sess) of
        Inl e \<Rightarrow> (Uncaught, s0)
      | Inr latest_charge \<Rightarrow>
     (case charges_retrieve pf latest_charge of
        Inl e \<Rightarrow> (Uncaught, s0)
      | Inr pmd \<Rightarrow>
     (let fingerprint = (case pmd of None \<Rightarrow> None | Some d \<Rightarrow> pmd_card_fingerprint d);
          verified = (case pmd of
                        None \<Rightarrow> None
                      | Some d \<Rightarrow> if pmd_type d = ''link'' then Some mail else None)
      in
      case findAlternate version verified fingerprint s0 of
        (Inl e, s2) \<Rightarrow> (Threw e, s2)
      | (Inr alternate, s2) \<Rightarrow>
      if \<not> truthy alternate then
        (case exec (userClient version doName)
                (InsertRow \<lparr>access_token = token, verified_user_access_token = None,
                            client_reference_id = Some cri, name = or_null nm,
                            balance = amount, email = Some mail,
                            card_fingerprint = or_null fingerprint,
                            verified_email = or_null verified\<rparr>) s2 of
           (Inl e, s3) \<Rightarrow> (Threw e, s3)
         | (Inr res, s3) \<Rightarrow> (Returned (textResponse 200 ''Payment processed successfully''), s3))
      else
     (case alternate of
        None \<Rightarrow> (Uncaught, s2)
      | Some verifiedToken \<Rightarrow>
      if verifiedToken = token then
        (Returned (textResponse 500
           ''Found the user even though 'userFromAccessToken' was not found. Data might be corrupt''),
         s2)
      else
     (case exec (userClient version doName) (InsertRow (stubRow token verifiedToken)) s2 of
        (Inl e, s3) \<Rightarrow> (Threw e, s3)
      | (Inr res, s3) \<Rightarrow>
     (let verifiedUserDOName =
            getDOName (getClientReferenceId wc verifiedToken (DB_SECRET env))
      in
      case exec (userClient version verifiedUserDOName)
             (creditStatement amount mail (or_null nm) verifiedToken) s3 of
        (Inl e, s4) \<Rightarrow> (Threw e, s4)
      | (Inr res', s4) \<Rightarrow>
          (Returned (textResponse 200 ''Payment processed successfully''), s4)))))))))"

text \<open>The \<open>checkout.session.completed\<close> branch: the checks of the event.\<close>

definition checkoutSessionCompleted ::
  "webcrypto \<Rightarrow> platform \<Rightarrow> Env \<Rightarrow> string \<Rightarrow> checkout_session \<Rightarrow> store \<Rightarrow> Response outcome \<times> store" where
  "checkoutSessionCompleted wc pf env version sess s =
     (if payment_status sess \<noteq> ''paid'' \<or> amount_total sess = None \<or> amount_total sess = Some 0
      then (Returned (textResponse 400 ''Payment not completed''), s)
      else if \<not> truthy (session_client_reference_id sess)
      then (Returned (textResponse 400 ''Missing client_reference_id''), s)
      else if \<not> truthy (case session_customer_details sess of
                            None \<Rightarrow> None | Some d \<Rightarrow> cd_email d)
      then (Returned (textResponse 400 ''Missing customer_details.email''), s)
      else if DB_SECRET env = []
      then (Returned (textResponse 400 ''Missing DB_SECRET''), s)
      else
        (case (amount_total sess, session_client_reference_id sess,
               session_customer_details sess) of
           (Some amount, Some cri, Some details) \<Rightarrow>
             (case cd_email details of
                None \<Rightarrow> (Uncaught, s)
              | Some mail \<Rightarrow>
                  (case decryptToken wc cri (DB_SECRET env) of
                     Inl e \<Rightarrow>
                       (Returned (textResponse 200
                          ''Could not decrypt client_reference_id. Assuming this event is not meant for this webhook.''),
                        s)
                   | Inr token \<Rightarrow>
                       reconcile wc pf env version sess cri token amount mail (cd_name details) s))
         | _ \<Rightarrow> (Uncaught, s)))"

definition handleStripeWebhook ::
  "webcrypto \<Rightarrow> platform \<Rightarrow> Env \<Rightarrow> string \<Rightarrow> Request \<Rightarrow> store \<Rightarrow> Response outcome \<times> store" where
  "handleStripeWebhook wc pf env version req s =
     (case request_body req of
        None \<Rightarrow> (Returned (jsonErrorResponse 400 ''No body''), s)
      | Some rawBodyString \<Rightarrow>
          (case stripe_signature req of
             None \<Rightarrow> (Returned (jsonErrorResponse 400 ''No signature''), s)
           | Some stripeSignature \<Rightarrow>
               (if stripeSignature = [] then
                  (Returned (jsonErrorResponse 400 ''No signature''), s)
                else
                  (case constructEventAsync pf rawBodyString stripeSignature
                          (STRIPE_WEBHOOK_SIGNING_SECRET env) of
                     Inl err \<Rightarrow> (Returned (textResponse 400 (''Webhook error: '' @ err)), s)
                   | Inr event \<Rightarrow>
                       (if event_type event = ''checkout.session.completed'' then
                          checkoutSessionCompleted wc pf env version (event_object event) s
                        else (Returned (textResponse 200 ''Event not handled''), s))))))"

section \<open>Token rotation (\<open>handleTokenRotation\<close>)\<close>

text \<open>
  The \<open>catch\<close> block of the rotation: delete the new row, ignoring a failure of the
  deletion, and answer 500.
\<close>

definition rotationCleanup ::
  "StripeflareClient \<Rightarrow> string \<Rightarrow> store \<Rightarrow> Response outcome \<times> store" where
  "rotationCleanup newUserClient newAccessToken s =
     (case exec newUserClient (DeleteWhere (\<lambda>r. access_token r = newAccessToken)) s of
        (Inl cleanupError, s') \<Rightarrow> (Returned (jsonErrorResponse 500 ''Failed to rotate token''), s')
      | (Inr res, s') \<Rightarrow> (Returned (jsonErrorResponse 500 ''Failed to rotate token''), s'))"

text \<open>
  \<open>uuid\<close> is the value of \<open>crypto.randomUUID()\<close> inside \<open>handleUserSession\<close>,
  \<open>newAccessToken\<close> the one drawn for the rotation.
\<close>

definition handleTokenRotation ::
  "webcrypto \<Rightarrow> Env \<Rightarrow> string \<Rightarrow> Request \<Rightarrow> string \<Rightarrow> string \<Rightarrow> store \<Rightarrow> Response outcome \<times> store" where
  "handleTokenRotation wc env version req uuid newAccessToken s =
     (if request_method req \<noteq> ''POST'' then (Returned (textResponse 405 ''Method not allowed''), s)
      else
        (case handleUserSession wc env version req uuid s of
           (sess, s1) \<Rightarrow>
             (case client sess of
                None \<Rightarrow> (Returned (jsonErrorResponse 401 ''Not authenticated''), s1)
              | Some cl \<Rightarrow>
                  (if access_token (user sess) = [] then
                     (Returned (jsonErrorResponse 401 ''Not authenticated''), s1)
                   else
                     (let usr = user sess;
                          newClientReferenceId = encryptToken wc newAccessToken (DB_SECRET env);
                          newUserClient = userClient version (getDOName newClientReferenceId)
                      in case exec newUserClient
                                (InsertRow
                                   \<lparr>access_token = newAccessToken,
                                    verified_user_access_token = None,
                                    client_reference_id = Some newClientReferenceId,
                                    name = name usr, balance = balance usr, email = email usr,
                                    card_fingerprint = card_fingerprint usr,
                                    verified_email = verified_email usr\<rparr>) s1 of
                           (Inl e, s2) \<Rightarrow> rotationCleanup newUserClient newAccessToken s2
                         | (Inr res, s2) \<Rightarrow>
                             (case exec cl
                                     (DeleteWhere (\<lambda>r. access_token r = access_token usr)) s2 of
                                (Inl e, s3) \<Rightarrow> rotationCleanup newUserClient newAccessToken s3
                              | (Inr res', s3) \<Rightarrow>
                                  (Returned
                                     \<lparr>status = 200,
                                      response_headers =
                                        [(''Content-Type'', ''application/json''),
                                         (''Set-Cookie'',
                                          ''access_token='' @ newAccessToken @
                                          cookieSuffix env (hostname req))],
                                      response_body =
                                        Json [(''success'', JBool True),
                                              (''message'', JStr ''Token rotated successfully'')]\<rparr>,
                                   s3)))))))"

section \<open>The middleware (\<open>stripeBalanceMiddleware\<close>) and the \<open>/me\<close> endpoint\<close>

definition uri_unreserved :: "char \<Rightarrow> bool" where
  "uri_unreserved c \<longleftrightarrow>
     c \<in> set ''ABCDEFGHIJKLMNOPQRSTUVWXYZabcdefghijklmnopqrstuvwxyz0123456789-_.!~*'()''"

definition hex_digit :: "nat \<Rightarrow> char" where
  "hex_digit n = ''0123456789ABCDEF'' ! n"

definition encodeURIComponent :: "string \<Rightarrow> string" where
  "encodeURIComponent t =
     concat (map (\<lambda>c. if uri_unreserved c then [c]
                       else [CHR ''%'', hex_digit ((of_char c :: nat) div 16),
                             hex_digit ((of_char c :: nat) mod 16)]) t)"

definition paymentLinkOf :: "Env \<Rightarrow> StripeUser \<Rightarrow> string option" where
  "paymentLinkOf env usr =
     (case client_reference_id usr of
        None \<Rightarrow> None
      | Some cri \<Rightarrow>
          (if cri = [] then None
           else Some (STRIPE_PAYMENT_LINK env @ ''?client_reference_id='' @
                      encodeURIComponent cri)))"

definition registeredOf :: "StripeUser \<Rightarrow> bool" where
  "registeredOf usr = truthy (email usr)"

definition json_of :: "string option \<Rightarrow> json" where
  "json_of v = (case v of None \<Rightarrow> JNull | Some t \<Rightarrow> JStr t)"

text \<open>
  The object of the \<open>/me\<close> response:
  \<open>{ ...publicUser, client_reference_id, paymentLink, registered }\<close>, where
  \<open>publicUser\<close> is the user without \<open>access_token\<close>, \<open>verified_user_access_token\<close>
  and \<open>client_reference_id\<close>. (A nullable field appears as \<open>null\<close>.)
\<close>

definition meBody :: "Env \<Rightarrow> StripeUser \<Rightarrow> (string \<times> json) list" where
  "meBody env usr =
     [(''balance'', JNum (balance usr)),
      (''name'', json_of (name usr)),
      (''email'', json_of (email usr)),
      (''verified_email'', json_of (verified_email usr)),
      (''card_fingerprint'', json_of (card_fingerprint usr)),
      (''client_reference_id'', json_of (client_reference_id usr))] @
     (case paymentLinkOf env usr of None \<Rightarrow> [] | Some l \<Rightarrow> [(''paymentLink'', JStr l)]) @
     [(''registered'', JBool (registeredOf usr))]"

record middleware_session =
  ms_user :: StripeUser
  ms_headers :: "(string \<times> string) list"
  ms_client :: "StripeflareClient option"
  ms_paymentLink :: "string option"
  ms_registered :: bool

datatype MiddlewareResult = ResponseResult Response | SessionResult middleware_session

definition dbApi ::
  "webcrypto \<Rightarrow> platform \<Rightarrow> Env \<Rightarrow> string \<Rightarrow> Request \<Rightarrow> store \<Rightarrow> (Response option) outcome \<times> store" where
  "dbApi wc pf env version req s =
     (let nameParam = takeWhile (\<lambda>c. c \<noteq> CHR ''/'') (drop (length ''/db/'') (pathname req))
      in if nameParam = AGGREGATE_NAME then
           (case client_middleware pf
                   [shardName version AGGREGATE_NAME, shardName version AGGREGATE_NAME]
                   (''/db/'' @ nameParam) AGGREGATE_NAME (DB_SECRET env) req s of
              (r, s') \<Rightarrow> (Returned r, s'))
         else
           (case decryptToken wc nameParam (DB_SECRET env) of
              Inl e \<Rightarrow> (Threw e, s)
            | Inr secret \<Rightarrow>
                (case client_middleware pf [shardName version (getDOName nameParam)]
                        (''/db/'' @ nameParam) (getDOName nameParam) secret req s of
                   (r, s') \<Rightarrow> (Returned r, s'))))"

definition sessionResult ::
  "webcrypto \<Rightarrow> Env \<Rightarrow> string \<Rightarrow> Request \<Rightarrow> string \<Rightarrow> store \<Rightarrow> MiddlewareResult outcome \<times> store" where
  "sessionResult wc env version req uuid s =
     (case handleUserSession wc env version req uuid s of
        (sess, s1) \<Rightarrow>
          (let paymentLink = paymentLinkOf env (user sess);
               registered = registeredOf (user sess)
           in if pathname req = ''/me'' then
                (Returned (ResponseResult
                   \<lparr>status = 200, response_headers = headers sess,
                    response_body = Json (meBody env (user sess))\<rparr>), s1)
              else
                (Returned (SessionResult
                   \<lparr>ms_user = user sess, ms_headers = headers sess, ms_client = client sess,
                    ms_paymentLink = paymentLink, ms_registered = registered\<rparr>), s1)))"

definition stripeBalanceMiddleware ::
  "webcrypto \<Rightarrow> platform \<Rightarrow> Env \<Rightarrow> string \<Rightarrow> Request \<Rightarrow> string \<Rightarrow> string \<Rightarrow> store \<Rightarrow>
   MiddlewareResult outcome \<times> store" where
  "stripeBalanceMiddleware wc pf env version req uuid newAccessToken s =
     (if DB_SECRET env = [] \<or> STRIPE_PAYMENT_LINK env = [] \<or> STRIPE_PUBLISHABLE_KEY env = [] \<or>
         STRIPE_SECRET env = [] \<or> STRIPE_WEBHOOK_SIGNING_SECRET env = []
      then
        (Returned (ResponseResult (textResponse 500
           ''Not all stripeflare environment variables have been set up. Please set your secrets and restart your worker'')),
         s)
      else if pathname req = ''/rotate-token'' then
        (case handleTokenRotation wc env version req uuid newAccessToken s of
           (Returned r, s') \<Rightarrow> (Returned (ResponseResult r), s')
         | (Threw e, s') \<Rightarrow> (Threw e, s')
         | (Uncaught, s') \<Rightarrow> (Uncaught, s'))
      else if pathname req = ''/stripe-webhook'' then
        (case handleStripeWebhook wc pf env version req s of
           (Returned r, s') \<Rightarrow> (Returned (ResponseResult r), s')
         | (Threw e, s') \<Rightarrow> (Threw e, s')
         | (Uncaught, s') \<Rightarrow> (Uncaught, s'))
      else if take (length ''/db/'') (pathname req) = ''/db/'' then
        (case dbApi wc pf env version req s of
           (Returned (Some middlewareResponse), s') \<Rightarrow>
             (Returned (ResponseResult middlewareResponse), s')
         | (Returned None, s') \<Rightarrow> sessionResult wc env version req uuid s'
         | (Threw e, s') \<Rightarrow> (Threw e, s')
         | (Uncaught, s') \<Rightarrow> (Uncaught, s'))
      else sessionResult wc env version req uuid s)"

section \<open>The wrapper (\<open>withStripeflare\<close>)\<close>









section \<open>Example inputs\<close>

text \<open>
  A stand-in for the Web Crypto primitives that satisfies \<open>webcrypto_ok\<close>, and a small
  store: the shard of one funded user and the aggregate shard, both holding the row.
\<close>

definition example_webcrypto :: webcrypto where
  "example_webcrypto =
     \<lparr>pbkdf2 = (\<lambda>password salt iterations. password),
      sha256 = (\<lambda>d. replicate 32 (of_nat (length d))),
      aes_gcm_encrypt = (\<lambda>k iv p. 42 # p),
      aes_gcm_decrypt = (\<lambda>k iv c. case c of [] \<Rightarrow> None
                                   | t # p \<Rightarrow> if t = 42 then Some p else None)\<rparr>"

definition example_env :: Env where
  "example_env =
     \<lparr>DB_SECRET = ''0123456789abcdef'', STRIPE_WEBHOOK_SIGNING_SECRET = ''whsec'',
      STRIPE_SECRET = ''sk'', STRIPE_PUBLISHABLE_KEY = ''pk'',
      STRIPE_PAYMENT_LINK = ''https://buy.stripe.com/x'', SKIP_LOGIN = None\<rparr>"

definition example_user :: StripeUser where
  "example_user =
     \<lparr>access_token = ''T1'', verified_user_access_token = None,
      client_reference_id = Some ''stale'', name = Some ''Ann'', balance = 500,
      email = Some ''ann@example.com'', card_fingerprint = Some ''F1'',
      verified_email = None\<rparr>"

definition example_store :: "string \<Rightarrow> store" where
  "example_store shard =
     \<lparr>tables = (\<lambda>n. if n = shard \<or> n = shardName ''1'' AGGREGATE_NAME then [example_user]
                     else []),
      unavailable = {}, outages = []\<rparr>"

definition empty_store :: store where
  "empty_store = \<lparr>tables = (\<lambda>n. []), unavailable = {}, outages = []\<rparr>"

definition example_request :: Request where
  "example_request =
     \<lparr>request_method = ''GET'', pathname = ''/'', hostname = ''example.com'',
      authorization = None,
      cookie_access_token = Some ''123e4567-e89b-12d3-a456-426614174000'',
      stripe_signature = None, request_body = None\<rparr>"


definition example_request_T1 :: Request where
  "example_request_T1 =
     \<lparr>request_method = ''POST'', pathname = ''/'', hostname = ''example.com'',
      authorization = Some ''Bearer T1'', cookie_access_token = None,
      stripe_signature = None, request_body = None\<rparr>"

definition example_platform :: platform where
  "example_platform =
     \<lparr>constructEventAsync = (\<lambda>body signature secret. Inl ''No signatures found''),
      paymentIntents_retrieve = (\<lambda>i. Inr None),
      charges_retrieve = (\<lambda>c. Inr None),
      client_middleware = (\<lambda>cl prefix username password req s. (None, s)),
      Number = (\<lambda>v. if v = ''700'' then Some 700 else None)\<rparr>"


definition example_request_me :: Request where
  "example_request_me = example_request\<lparr>pathname := ''/me''\<rparr>"

text \<open>The byte order mark U+FEFF in UTF-8, as the first character of a string.\<close>

definition bom :: string where
  "bom = [CHR 0xEF, CHR 0xBB, CHR 0xBF]"

text \<open>
  The same user with the current \<open>client_reference_id\<close>, stored in the shard that the
  access token \<open>T1\<close> routes to and in the aggregate shard.
\<close>

definition example_current_user :: StripeUser where
  "example_current_user =
     example_user\<lparr>client_reference_id :=
                    Some (encryptToken example_webcrypto ''T1'' (DB_SECRET example_env))\<rparr>"

definition example_shard :: string where
  "example_shard =
     shardName ''1'' (getDOName (encryptToken example_webcrypto ''T1'' (DB_SECRET example_env)))"

definition example_current_store :: store where
  "example_current_store =
     \<lparr>tables = (\<lambda>n. if n = example_shard \<or> n = shardName ''1'' AGGREGATE_NAME
                     then [example_current_user] else []),
      unavailable = {}, outages = []\<rparr>"


text \<open>
  A verified \<open>checkout.session.completed\<close> event for the access token \<open>token\<close>,
  paid by card with fingerprint \<open>F1\<close>, and a Stripe SDK that delivers it.
\<close>

definition example_checkout :: "string \<Rightarrow> int \<Rightarrow> checkout_session" where
  "example_checkout token amount =
     \<lparr>payment_status = ''paid'', amount_total = Some amount,
      session_client_reference_id =
        Some (encryptToken example_webcrypto token (DB_SECRET example_env)),
      session_customer_details =
        Some \<lparr>cd_email = Some ''ann@example.com'', cd_name = Some ''Ann''\<rparr>,
      payment_intent = Some ''pi_1''\<rparr>"

definition example_stripe :: "checkout_session \<Rightarrow> platform" where
  "example_stripe sess =
     example_platform
       \<lparr>constructEventAsync :=
          (\<lambda>body signature secret.
             Inr \<lparr>event_type = ''checkout.session.completed'', event_object = sess\<rparr>),
        paymentIntents_retrieve := (\<lambda>i. Inr (Some ''ch_1'')),
        charges_retrieve :=
          (\<lambda>c. Inr (Some \<lparr>pmd_type = ''card'', pmd_card_fingerprint = Some ''F1''\<rparr>))\<rparr>"

definition example_webhook_request :: Request where
  "example_webhook_request =
     \<lparr>request_method = ''POST'', pathname = ''/stripe-webhook'', hostname = ''example.com'',
      authorization = None, cookie_access_token = None,
      stripe_signature = Some ''t=1,v1=0a'', request_body = Some ''{}''\<rparr>"

section \<open>The codec\<close>

lemma unat_byte_of_char: "unat (byte_of_char c) = of_char c"
proof -
  have "unat (byte_of_char c) = (of_char c :: nat) mod 256"
    unfolding byte_of_char_def by (simp only: unat_of_nat) simp
  then show ?thesis by (simp add: of_char_mod_256)
qed

lemma char_of_byte_of_char: "char_of_byte (byte_of_char c) = c"
  by (simp add: char_of_byte_def unat_byte_of_char)

lemma decode_encode_bytes: "map (char_of_byte \<circ> byte_of_char) t = t"
  by (simp add: char_of_byte_of_char map_idI)

lemma inj_byte_of_char: "inj byte_of_char"
  by (rule inj_on_inverseI[where g = char_of_byte]) (rule char_of_byte_of_char)

lemma unat_byte_less: "unat (b :: 8 word) < 256"
  using unsigned_less[of b, where 'a = nat] by simp

lemma replaceAll_single: "replaceAll c [d] t = map (\<lambda>x. if x = c then d else x) t"
  by (induction t) (auto simp: replaceAll_def)

lemma replaceAll_nil: "replaceAll c [] t = filter (\<lambda>x. x \<noteq> c) t"
  by (induction t) (auto simp: replaceAll_def)

lemma b64chars_length: "length b64chars = 64"
  by (simp add: b64chars_def)

lemma b64chars_distinct: "distinct b64chars"
  by (simp add: b64chars_def)

lemma index_of_nth: "distinct xs \<Longrightarrow> n < length xs \<Longrightarrow> index_of (xs ! n) xs = Some n"
proof (induction xs arbitrary: n)
  case Nil
  then show ?case by simp
next
  case (Cons x xs)
  then show ?case by (cases n) auto
qed

lemma b64index_b64char: "n < 64 \<Longrightarrow> b64index (b64char n) = Some n"
  by (simp add: b64index_def b64char_def index_of_nth b64chars_distinct b64chars_length)

lemma b64char_in: "n < 64 \<Longrightarrow> b64char n \<in> set b64chars"
  by (simp add: b64char_def b64chars_length)

lemma b64chars_plain:
  "\<forall>c \<in> set b64chars. c \<noteq> CHR ''='' \<and> c \<noteq> CHR ''-'' \<and> c \<noteq> CHR ''_'' \<and> \<not> ascii_whitespace c"
  by (simp add: b64chars_def ascii_whitespace_def)

lemma b64_sextets_bound: "\<forall>x \<in> set (b64_sextets b). x < 64"
proof (induction b rule: b64_sextets.induct)
  case (1 a b c r)
  have "unat a < 256" "unat b < 256" "unat c < 256"
    by (rule unat_byte_less)+
  then have "unat a div 4 < 64" "unat a mod 4 * 16 + unat b div 16 < 64"
    "unat b mod 16 * 4 + unat c div 64 < 64" "unat c mod 64 < 64"
    by arith+
  with 1 show ?case by simp
next
  case (2 a b)
  have "unat a < 256" "unat b < 256"
    by (rule unat_byte_less)+
  then have "unat a div 4 < 64" "unat a mod 4 * 16 + unat b div 16 < 64"
    "unat b mod 16 * 4 < 64"
    by arith+
  then show ?case by simp
next
  case (3 a)
  have "unat a < 256" by (rule unat_byte_less)
  then have "unat a div 4 < 64" "unat a mod 4 * 16 < 64"
    by arith+
  then show ?case by simp
next
  case 4
  then show ?case by simp
qed

lemma b64_sextets_length:
  "length (b64_sextets b) mod 4 = (if length b mod 3 = 0 then 0 else length b mod 3 + 1)"
proof (induction b rule: b64_sextets.induct)
  case (1 a b c r)
  have "length (a # b # c # r) mod 3 = length r mod 3"
    by (simp add: mod_Suc) presburger
  moreover have "length (b64_sextets (a # b # c # r)) mod 4 = length (b64_sextets r) mod 4"
    by (simp add: mod_Suc) presburger
  ultimately show ?case using 1 by simp
qed simp_all

lemma b64_sextets_nonempty: "b \<noteq> [] \<Longrightarrow> b64_sextets b \<noteq> []"
  by (induction b rule: b64_sextets.induct) simp_all

lemma byte_group:
  assumes "y < 256"
  shows "x div 4 * 4 + (x mod 4 * 16 + y div 16) div 16 = (x :: nat)"
proof -
  from assms have "y div 16 < 16" by arith
  then have "(x mod 4 * 16 + y div 16) div 16 = x mod 4" by simp
  then show ?thesis by simp
qed

lemma byte_group2:
  assumes "z < 256" and that: "y < 256"
  shows "(x mod 4 * 16 + y div 16) mod 16 * 16 + (y mod 16 * 4 + z div 64) div 4 = (y :: nat)"
proof -
  from that have "y div 16 < 16" by arith
  then have a: "(x mod 4 * 16 + y div 16) mod 16 = y div 16" by simp
  from assms have "z div 64 < 4" by arith
  then have b: "(y mod 16 * 4 + z div 64) div 4 = y mod 16" by simp
  from \<open>y div 16 < 16\<close> have c: "y div 16 mod 16 = y div 16" by simp
  show ?thesis by (simp add: b c)
qed

lemma byte_group3:
  assumes "z < 256"
  shows "(y mod 16 * 4 + z div 64) mod 4 * 64 + z mod 64 = (z :: nat)"
proof -
  from assms have "z div 64 < 4" by arith
  then have "(y mod 16 * 4 + z div 64) mod 4 = z div 64" by simp
  then show ?thesis by simp
qed

lemma byte_group2_last:
  assumes "y < 256"
  shows "(x mod 4 * 16 + y div 16) mod 16 * 16 + (y mod 16 * 4) div 4 = (y :: nat)"
  using byte_group2[of 0 y x] assms by simp

lemma byte_group_last: "x div 4 * 4 + (x mod 4 * 16) div 16 = (x :: nat)"
  using byte_group[of 0 x] by simp

lemma b64_bytes_sextets: "b64_bytes (b64_sextets b) = b"
proof (induction b rule: b64_sextets.induct)
  case (1 a b c r)
  have "unat a < 256" "unat b < 256" "unat c < 256"
    by (rule unat_byte_less)+
  with 1 show ?case
    by (simp add: byte_group byte_group2 byte_group3)
next
  case (2 a b)
  have "unat a < 256" "unat b < 256"
    by (rule unat_byte_less)+
  then show ?case
    by (simp add: byte_group byte_group2_last)
next
  case (3 a)
  show ?case
    by (simp add: byte_group_last)
next
  case 4
  then show ?case by simp
qed


text \<open>The URL-safe form is the base64 text with two characters renamed and no padding.\<close>

lemma url_chars_map:
  assumes "\<forall>n \<in> set sx. b64char n \<noteq> CHR ''=''"
  shows "replaceAll (CHR ''='') []
           (replaceAll (CHR ''/'') ''_'' (replaceAll (CHR ''+'') ''-'' (map b64char sx @ pad))) =
         map (\<lambda>n. if b64char n = CHR ''+'' then CHR ''-''
                   else if b64char n = CHR ''/'' then CHR ''_'' else b64char n) sx @
         replaceAll (CHR ''='') []
           (replaceAll (CHR ''/'') ''_'' (replaceAll (CHR ''+'') ''-'' pad))"
  using assms by (induction sx) (simp_all add: replaceAll_def)

lemma arrayBufferToBase64Url_map:
  "arrayBufferToBase64Url b =
     map (\<lambda>n. if b64char n = CHR ''+'' then CHR ''-''
               else if b64char n = CHR ''/'' then CHR ''_'' else b64char n) (b64_sextets b)"
proof -
  have plain: "\<forall>n \<in> set (b64_sextets b). b64char n \<noteq> CHR ''=''"
    using b64_sextets_bound[of b] b64char_in b64chars_plain by blast
  have pad: "replaceAll (CHR ''='') []
           (replaceAll (CHR ''/'') ''_'' (replaceAll (CHR ''+'') ''-'' (replicate k (CHR ''='')))) = []"
    for k by (induction k) (simp_all add: replaceAll_def)
  show ?thesis
    by (simp add: arrayBufferToBase64Url_def btoa_def url_chars_map[OF plain] pad)
qed

lemma arrayBufferToBase64Url_length:
  "length (arrayBufferToBase64Url b) = length (b64_sextets b)"
  by (simp add: arrayBufferToBase64Url_map)

lemma arrayBufferToBase64Url_nonempty: "b \<noteq> [] \<Longrightarrow> arrayBufferToBase64Url b \<noteq> []"
  by (simp add: arrayBufferToBase64Url_map b64_sextets_nonempty)

lemma url_chars_back:
  assumes "\<forall>n \<in> set sx. n < 64"
  shows "replaceAll (CHR ''_'') ''/'' (replaceAll (CHR ''-'') ''+''
           (map (\<lambda>n. if b64char n = CHR ''+'' then CHR ''-''
                     else if b64char n = CHR ''/'' then CHR ''_'' else b64char n) sx)) =
         map b64char sx"
proof -
  have "\<forall>n \<in> set sx. b64char n \<noteq> CHR ''-'' \<and> b64char n \<noteq> CHR ''_''"
    using assms b64char_in b64chars_plain by blast
  then show ?thesis
    by (induction sx) (auto simp: replaceAll_single)
qed

lemma those_b64index:
  "\<forall>n \<in> set sx. n < 64 \<Longrightarrow> those (map (b64index \<circ> b64char) sx) = Some sx"
  by (induction sx) (auto simp: b64index_b64char)

lemma atob_padded:
  assumes bound: "\<forall>n \<in> set sx. n < 64"
    and len: "length sx mod 4 \<noteq> 1"
  shows "atob (map b64char sx @ replicate ((4 - length sx mod 4) mod 4) (CHR ''='')) =
           Inr (b64_bytes sx)"
proof -
  let ?m = "map b64char sx"
  let ?p = "(4 - length sx mod 4) mod 4"
  have plain: "\<forall>c \<in> set ?m. c \<noteq> CHR ''='' \<and> \<not> ascii_whitespace c"
    using bound b64char_in b64chars_plain by auto
  have ws: "filter (\<lambda>c. \<not> ascii_whitespace c) (?m @ replicate ?p (CHR ''='')) =
              ?m @ replicate ?p (CHR ''='')"
    using plain by (auto simp: filter_id_conv ascii_whitespace_def)
  have lastm: "?m \<noteq> [] \<Longrightarrow> last ?m \<noteq> CHR ''=''"
    using plain last_in_set[of ?m] by blast
  have "length sx mod 4 < 4" by simp
  with len consider (z) "length sx mod 4 = 0" | (two) "length sx mod 4 = 2"
    | (three) "length sx mod 4 = 3"
    by arith
  then have strip: "strip_padding (?m @ replicate ?p (CHR ''='')) = ?m"
  proof cases
    case z
    then have "?p = 0" by simp
    then show ?thesis using lastm by (auto simp: strip_padding_def)
  next
    case two
    then have p: "?p = 2" by simp
    have "replicate 2 (CHR ''='') = [CHR ''='', CHR ''='']"
      by (simp add: numeral_2_eq_2)
    with p have eq: "?m @ replicate ?p (CHR ''='') = ?m @ [CHR ''='', CHR ''='']" by simp
    have "length (?m @ [CHR ''='', CHR ''='']) mod 4 = 0"
      using two by (simp add: mod_Suc)
    then show ?thesis
      unfolding eq by (simp add: strip_padding_def butlast_append)
  next
    case three
    then have p: "?p = 1" by simp
    then have eq: "?m @ replicate ?p (CHR ''='') = ?m @ [CHR ''='']" by simp
    have len0: "length (?m @ [CHR ''='']) mod 4 = 0"
      using three by (simp add: mod_Suc)
    from three have "?m \<noteq> []" by auto
    with lastm len0 show ?thesis
      unfolding eq by (simp add: strip_padding_def)
  qed
  show ?thesis
    unfolding atob_def ws strip
    using len by (simp add: those_b64index[OF bound])
qed

lemma base64url_roundtrip: "base64UrlToArrayBuffer (arrayBufferToBase64Url b) = Inr b"
proof -
  let ?sx = "b64_sextets b"
  have bound: "\<forall>n \<in> set ?sx. n < 64"
    by (rule b64_sextets_bound)
  have len: "length ?sx mod 4 \<noteq> 1"
    using b64_sextets_length[of b] by (auto split: if_splits)
  have "base64UrlToArrayBuffer (arrayBufferToBase64Url b) =
          atob (map b64char ?sx @ replicate ((4 - length ?sx mod 4) mod 4) (CHR ''=''))"
    unfolding base64UrlToArrayBuffer_def arrayBufferToBase64Url_length padEnd_def
    by (simp add: arrayBufferToBase64Url_map url_chars_back[OF bound])
  then show ?thesis
    by (simp add: atob_padded[OF bound len] b64_bytes_sextets)
qed


lemma example_webcrypto_ok: "webcrypto_ok example_webcrypto"
  by (simp add: webcrypto_ok_def example_webcrypto_def split: list.splits)

lemma bom_bytes: "map byte_of_char bom = utf8_bom"
  by (simp add: bom_def utf8_bom_def byte_of_char_def)

lemma take_bom_iff: "take 3 (map byte_of_char t) = utf8_bom \<longleftrightarrow> take 3 t = bom"
proof -
  have "take 3 (map byte_of_char t) = map byte_of_char (take 3 t)"
    by (simp add: take_map)
  then show ?thesis
    using inj_byte_of_char bom_bytes by (metis inj_map_eq_map)
qed

lemma decode_encode:
  "TextDecoder_decode (TextEncoder_encode t) = (if take 3 t = bom then drop 3 t else t)"
  by (simp add: TextDecoder_decode_def TextEncoder_encode_def take_bom_iff decode_encode_bytes
        flip: drop_map)

lemma generateIV_length: "webcrypto_ok wc \<Longrightarrow> length (generateIV wc t) = 12"
  by (simp add: generateIV_def IV_LENGTH_def webcrypto_ok_def)

lemma decryptToken_encryptToken:
  assumes "webcrypto_ok wc"
  shows "decryptToken wc (encryptToken wc token secret) secret =
           Inr (if take 3 token = bom then drop 3 token else token)"
  using assms generateIV_length[OF assms, of token]
  by (simp add: decryptToken_def encryptToken_def Let_def base64url_roundtrip IV_LENGTH_def
        webcrypto_ok_def decode_encode)



lemma encryptToken_nonempty: "webcrypto_ok wc \<Longrightarrow> encryptToken wc t secret \<noteq> []"
proof -
  assume "webcrypto_ok wc"
  then have "generateIV wc t \<noteq> []"
    using generateIV_length[of wc t] by auto
  then show ?thesis
    by (simp add: encryptToken_def Let_def arrayBufferToBase64Url_nonempty)
qed

text \<open>
  Decryption returns the token whenever it does not begin with a byte order mark.
\<close>

lemma roundtrip_without_bom:
  assumes "webcrypto_ok wc" "take 3 token \<noteq> bom"
  shows "decryptToken wc (encryptToken wc token secret) secret = Inr token"
  using assms by (simp add: decryptToken_encryptToken)

text \<open>
  C2 at the failing inputs: a token that begins with a byte order mark, under a secret
  of at least 16 characters. Decrypting its encryption returns the token without the
  mark, which is not the token.
\<close>

theorem roundtrip_loses_byte_order_mark:
  assumes "16 \<le> length secret" "webcrypto_ok wc"
  shows "decryptToken wc (encryptToken wc (bom @ t) secret) secret = Inr t \<and> bom @ t \<noteq> t"
  using decryptToken_encryptToken[OF assms(2), of "bom @ t" secret]
  by (simp add: bom_def)

theorem roundtrip_loses_byte_order_mark_witness:
  "16 \<le> length ''0123456789abcdef'' \<and> webcrypto_ok example_webcrypto \<and>
   decryptToken example_webcrypto
     (encryptToken example_webcrypto (bom @ ''T1'') ''0123456789abcdef'') ''0123456789abcdef'' =
   Inr ''T1'' \<and> bom @ ''T1'' \<noteq> ''T1''"
proof -
  have h: "16 \<le> length ''0123456789abcdef''" by simp
  show ?thesis
    using h example_webcrypto_ok
      roundtrip_loses_byte_order_mark [OF h example_webcrypto_ok, of "''T1''"]
    by simp
qed

section \<open>Facts about the store\<close>

lemma tables_elapse [simp]: "tables (elapse s) = tables s"
  by (simp add: elapse_def split: list.splits)

lemma elapse_steady [simp]: "outages s = [] \<Longrightarrow> elapse s = s"
  by (simp add: elapse_def)

lemma elapse_tables_update [simp]:
  "unavailable (elapse (s\<lparr>tables := t\<rparr>)) = unavailable (elapse s)"
  "outages (elapse (s\<lparr>tables := t\<rparr>)) = outages (elapse s)"
  by (simp_all add: elapse_def split: list.splits)

lemma tables_mirror_other: "n \<notin> set ms \<Longrightarrow> tables (mirror q ms s) n = tables s n"
  by (induction ms arbitrary: s) (auto split: sum.splits)

lemma unavailable_mirror [simp]: "unavailable (mirror q ms s) = unavailable s"
  by (induction ms arbitrary: s) (auto split: sum.splits)

lemma outages_mirror [simp]: "outages (mirror q ms s) = outages s"
  by (induction ms arbitrary: s) (auto split: sum.splits)

lemma elapse_mirror [simp]:
  "unavailable (elapse (mirror q ms s)) = unavailable (elapse s)"
  "outages (elapse (mirror q ms s)) = outages (elapse s)"
  by (simp_all add: elapse_def split: list.splits)

lemma rowOf_elapse [simp]: "rowOf (elapse s) m k = rowOf s m k"
  by (simp add: rowOf_def)

lemma user_shard_not_aggregate:
  "shardName version (getDOName cri) \<noteq> shardName version AGGREGATE_NAME"
  by (simp add: shardName_def getDOName_def DO_PREFIX_def AGGREGATE_NAME_def)

lemma find_update_key:
  assumes "distinct (map access_token t)" "find (\<lambda>r. access_token r = k) t = Some row"
    and "\<And>r. access_token (f r) = access_token r"
  shows "find (\<lambda>r. access_token r = k)
           (map (\<lambda>r. if access_token r = k \<and> P r then f r else r) t)
         = Some (if P row then f row else row)"
  using assms by (induction t) (auto split: if_splits)

lemma filter_key_none:
  "find (\<lambda>r. access_token r = k) t = None \<Longrightarrow> filter (\<lambda>r. access_token r = k \<and> P r) t = []"
  by (induction t) (auto split: if_splits)

lemma filter_key_some:
  assumes "distinct (map access_token t)" "find (\<lambda>r. access_token r = k) t = Some row"
  shows "filter (\<lambda>r. access_token r = k \<and> P r) t = (if P row then [row] else [])"
  using assms
  by (induction t) (auto split: if_splits simp: find_None_iff filter_empty_conv image_iff)

lemma map_update_none:
  assumes "distinct (map access_token t)" "find (\<lambda>r. access_token r = k) t = Some row" "\<not> P row"
  shows "map (\<lambda>r. if access_token r = k \<and> P r then f r else r) t = t"
proof -
  have "\<forall>r \<in> set t. access_token r = k \<longrightarrow> r = row"
    using assms(1,2) by (induction t) (auto split: if_splits simp: image_iff)
  then have "\<forall>r \<in> set t. \<not> (access_token r = k \<and> P r)"
    using assms(3) by auto
  then show ?thesis
    by (intro map_idI) auto
qed

text \<open>What a statement does through a user client.\<close>

lemma exec_userClient:
  "exec (userClient version (getDOName cri)) q s =
     (if shardName version (getDOName cri) \<in> unavailable s then (Inl StoreUnavailable, elapse s)
      else (case run_stmt q (tables s (shardName version (getDOName cri))) of
              Inl e \<Rightarrow> (Inl e, elapse s)
            | Inr (res, t') \<Rightarrow>
                (Inr res,
                 elapse (mirror q [shardName version AGGREGATE_NAME]
                           (s\<lparr>tables := (tables s)(shardName version (getDOName cri) := t')\<rparr>)))))"
  by (simp add: userClient_def)

lemma exec_userClient_main:
  assumes "exec (userClient version (getDOName cri)) q s = (Inr res, s')"
  shows "run_stmt q (tables s (shardName version (getDOName cri))) =
           Inr (res, tables s' (shardName version (getDOName cri)))"
  using assms user_shard_not_aggregate[of version cri]
  by (auto simp: exec_userClient tables_mirror_other split: if_splits sum.splits)

lemma mirror_select: "mirror (SelectWhere p) ms s = s"
  by (induction ms arbitrary: s) auto

lemma exec_select:
  "exec (m # ms) (SelectWhere p) s =
     (if m \<in> unavailable s then Inl StoreUnavailable
      else Inr \<lparr>one = find p (tables s m), rowsWritten = 0\<rparr>, elapse s)"
  by (simp add: mirror_select)

lemma exec_select_token:
  "exec (userClient version d) (SelectWhere (\<lambda>r. access_token r = k)) s =
     (if shardName version d \<in> unavailable s then Inl StoreUnavailable
      else Inr \<lparr>one = rowOf s (shardName version d) k, rowsWritten = 0\<rparr>, elapse s)"
  by (simp add: userClient_def exec_select rowOf_def)

text \<open>Every statement moves the reachable shards on by one step, and only that.\<close>

lemma exec_elapse:
  "exec c q s = (r, s') \<Longrightarrow>
   unavailable s' = unavailable (elapse s) \<and> outages s' = outages (elapse s)"
  by (cases c) (auto split: if_splits sum.splits)

lemma exec_unavailable:
  "outages s = [] \<Longrightarrow> exec c q s = (r, s') \<Longrightarrow> unavailable s' = unavailable s \<and> outages s' = []"
  using exec_elapse[of c q s r s'] by simp

lemma exec_failed: "exec c q s = (Inl e, s') \<Longrightarrow> s' = elapse s"
  by (cases c) (auto split: if_splits sum.splits)

lemma exec_tables_other:
  "exec (userClient version (getDOName cri)) q s = (r, s') \<Longrightarrow>
   m \<noteq> shardName version (getDOName cri) \<Longrightarrow> m \<noteq> shardName version AGGREGATE_NAME \<Longrightarrow>
   tables s' m = tables s m"
  by (auto simp: exec_userClient tables_mirror_other split: if_splits sum.splits)

lemma find_map_update:
  assumes "\<And>r. access_token (f r) = access_token r"
  shows "find (\<lambda>r. access_token r = k) (map (\<lambda>r. if access_token r = a then f r else r) t) =
           (if k = a then map_option f (find (\<lambda>r. access_token r = k) t)
            else find (\<lambda>r. access_token r = k) t)"
  using assms by (induction t) auto


lemma find_append_insert:
  "access_token r \<notin> set (map access_token t) \<Longrightarrow>
   find (\<lambda>x. access_token x = k) (t @ [r]) =
     (if k = access_token r then Some r else find (\<lambda>x. access_token x = k) t)"
  by (induction t) (auto simp: find_None_iff)

lemma exec_update_table:
  "exec (userClient version (getDOName cri)) (UpdateWhere f p) s = (Inr res, s') \<Longrightarrow>
   tables s' (shardName version (getDOName cri)) =
     map (\<lambda>r. if p r then f r else r) (tables s (shardName version (getDOName cri)))"
  using exec_userClient_main[of version cri "UpdateWhere f p" s res s'] by simp


lemma exec_insert_table:
  "exec (userClient version (getDOName cri)) (InsertRow r) s = (Inr res, s') \<Longrightarrow>
   access_token r \<notin> set (map access_token (tables s (shardName version (getDOName cri)))) \<and>
   tables s' (shardName version (getDOName cri)) =
     tables s (shardName version (getDOName cri)) @ [r]"
  using exec_userClient_main[of version cri "InsertRow r" s res s']
  by (simp split: if_splits)

lemma rowOf_exec_update:
  assumes "exec (userClient version (getDOName cri))
             (UpdateWhere f (\<lambda>r. access_token r = a)) s = (Inr res, s')"
    and "\<And>r. access_token (f r) = access_token r"
    and "m \<noteq> shardName version AGGREGATE_NAME"
  shows "rowOf s' m k =
           (if m = shardName version (getDOName cri) \<and> k = a then map_option f (rowOf s m k)
            else rowOf s m k)"
proof (cases "m = shardName version (getDOName cri)")
  case True
  then show ?thesis
    by (simp add: rowOf_def exec_update_table[OF assms(1)] find_map_update[OF assms(2)])
next
  case False
  with exec_tables_other[OF assms(1) False assms(3)] show ?thesis
    by (simp add: rowOf_def)
qed


lemma rowOf_exec_insert:
  assumes "exec (userClient version (getDOName cri)) (InsertRow r) s = (Inr res, s')"
    and "m \<noteq> shardName version AGGREGATE_NAME"
  shows "rowOf s' m k =
           (if m = shardName version (getDOName cri) \<and> k = access_token r then Some r
            else rowOf s m k)"
proof (cases "m = shardName version (getDOName cri)")
  case True
  then show ?thesis
    using exec_insert_table[OF assms(1)]
    by (simp add: rowOf_def find_append_insert)
next
  case False
  with exec_tables_other[OF assms(1) False assms(2)] show ?thesis
    by (simp add: rowOf_def)
qed

lemma exec_insert_ok:
  assumes "shardName version (getDOName cri) \<notin> unavailable s"
    and "rowOf s (shardName version (getDOName cri)) (access_token r) = None"
  shows "\<exists>res s'. exec (userClient version (getDOName cri)) (InsertRow r) s = (Inr res, s')"
  using assms by (auto simp: exec_userClient rowOf_def find_None_iff)

lemma exec_update_ok:
  assumes "shardName version (getDOName cri) \<notin> unavailable s"
  shows "\<exists>res s'. exec (userClient version (getDOName cri)) (UpdateWhere f p) s = (Inr res, s')"
  using assms by (auto simp: exec_userClient)


declare exec.simps [simp del]

section \<open>Charging\<close>

lemma chargeUser_charge:
  "chargeUser wc env (access_token usr) version amountCent allowNegativeBalance s =
     charge (Some (userClient version
                     (getDOName (getClientReferenceId wc (access_token usr) (DB_SECRET env)))))
       usr amountCent allowNegativeBalance s"
  by (simp add: chargeUser_def charge_def Let_def)

text \<open>
  C1. A charge with \<open>allowNegativeBalance = false\<close> against a user whose row is stored in
  the shard of the client: when the balance of the row is at least \<open>amountCent\<close>, the
  charge succeeds and the row is the old one with the balance lowered by \<open>amountCent\<close>,
  which is not negative; when the balance is smaller, the update writes no row, the
  answer is "User balance too low" and the shard is unchanged. \<open>chargeUser\<close> is the
  same charge through the client routed from the access token.
\<close>

theorem charge_conditional_decrement:
  assumes pk: "distinct (map access_token (tables s (shardName version (getDOName cri))))"
    and up: "shardName version (getDOName cri) \<notin> unavailable s"
    and tok: "access_token usr \<noteq> []"
    and row: "find (\<lambda>r. access_token r = access_token usr)
                (tables s (shardName version (getDOName cri))) = Some row"
  shows "(let (out, s') = charge (Some (userClient version (getDOName cri))) usr amountCent False s;
              row' = find (\<lambda>r. access_token r = access_token usr)
                       (tables s' (shardName version (getDOName cri)))
          in (amountCent \<le> balance row \<longrightarrow>
                out = Returned \<lparr>charged = True, message = ''Successfully charged''\<rparr> \<and>
                row' = Some (row\<lparr>balance := balance row - amountCent\<rparr>) \<and>
                0 \<le> balance row - amountCent) \<and>
             (balance row < amountCent \<longrightarrow>
                out = Returned \<lparr>charged = False, message = ''User balance too low''\<rparr> \<and>
                tables s' (shardName version (getDOName cri)) =
                  tables s (shardName version (getDOName cri)))) \<and>
         chargeUser wc env (access_token usr) version amountCent False s =
           charge (Some (userClient version
                     (getDOName (getClientReferenceId wc (access_token usr) (DB_SECRET env)))))
             usr amountCent False s"
proof -
  let ?shard = "shardName version (getDOName cri)"
  let ?k = "access_token usr"
  let ?P = "\<lambda>r. amountCent \<le> balance r"
  let ?f = "\<lambda>r. r\<lparr>balance := balance r - amountCent\<rparr>"
  have len: "length (filter (\<lambda>r. access_token r = ?k \<and> ?P r) (tables s ?shard)) =
               (if ?P row then 1 else 0)"
    using filter_key_some[OF pk row, of ?P] by simp
  have upd: "find (\<lambda>r. access_token r = ?k)
               (map (\<lambda>r. if access_token r = ?k \<and> ?P r then ?f r else r) (tables s ?shard)) =
             Some (if ?P row then ?f row else row)"
    by (rule find_update_key[OF pk row]) simp
  have same: "\<not> ?P row \<Longrightarrow>
      map (\<lambda>r. if access_token r = ?k \<and> ?P r then ?f r else r) (tables s ?shard) = tables s ?shard"
    by (rule map_update_none[OF pk row])
  show ?thesis
    using up tok len upd same user_shard_not_aggregate[of version cri]
    by (simp add: chargeUser_charge charge_def chargeStatement_def exec_userClient
          tables_mirror_other Let_def)
qed

theorem charge_conditional_decrement_witness:
  "distinct (map access_token (tables (example_store (shardName ''1'' (getDOName ''c1'')))
                                  (shardName ''1'' (getDOName ''c1'')))) \<and>
   shardName ''1'' (getDOName ''c1'') \<notin>
     unavailable (example_store (shardName ''1'' (getDOName ''c1''))) \<and>
   access_token example_user \<noteq> [] \<and>
   find (\<lambda>r. access_token r = access_token example_user)
     (tables (example_store (shardName ''1'' (getDOName ''c1'')))
        (shardName ''1'' (getDOName ''c1''))) = Some example_user \<and>
   (let (out, s') = charge (Some (userClient ''1'' (getDOName ''c1''))) example_user 200 False
                      (example_store (shardName ''1'' (getDOName ''c1'')))
    in out = Returned \<lparr>charged = True, message = ''Successfully charged''\<rparr> \<and>
       find (\<lambda>r. access_token r = access_token example_user)
         (tables s' (shardName ''1'' (getDOName ''c1''))) =
       Some (example_user\<lparr>balance := 300\<rparr>))"
proof -
  let ?sh = "shardName ''1'' (getDOName ''c1'')"
  have h1: "distinct (map access_token (tables (example_store ?sh) ?sh))"
    by (simp add: example_store_def)
  have h2: "?sh \<notin> unavailable (example_store ?sh)"
    by (simp add: example_store_def)
  have h3: "access_token example_user \<noteq> []"
    by (simp add: example_user_def)
  have h4: "find (\<lambda>r. access_token r = access_token example_user)
              (tables (example_store ?sh) ?sh) = Some example_user"
    by (simp add: example_store_def)
  have b: "balance example_user = 500"
    by (simp add: example_user_def)
  show ?thesis
    using h1 h2 h3 h4 charge_conditional_decrement [OF h1 h2 h3 h4, of 200]
    by (simp add: b split: prod.splits)
qed

section \<open>Session resolution\<close>

text \<open>
  A lookup that finds no user has written nothing: the rows are as before, and with no
  outage pending the store is the same.
\<close>

lemma refresh_tables_unchanged:
  "lk_user (refreshClientReferenceId wc env a u c s) = None \<Longrightarrow>
   tables (lk_store (refreshClientReferenceId wc env a u c s)) = tables s"
  by (auto simp: refreshClientReferenceId_def caught_def Let_def dest: exec_failed
           split: option.splits sum.splits if_splits prod.splits)

lemma refresh_store_unchanged:
  "outages s = [] \<Longrightarrow> lk_user (refreshClientReferenceId wc env a u c s) = None \<Longrightarrow>
   lk_store (refreshClientReferenceId wc env a u c s) = s"
  by (auto simp: refreshClientReferenceId_def caught_def Let_def dest: exec_failed
           split: option.splits sum.splits if_splits prod.splits)

lemma findUser_tables:
  "findUser wc env version t s = Inl (a, s') \<Longrightarrow> tables s' = tables s"
  "findUser wc env version t s = Inr (a, u, c, s') \<Longrightarrow> tables s' = tables s"
  by (auto simp: findUser_def exec_select_token Let_def split: option.splits if_splits)


lemma findUser_store:
  "outages s = [] \<Longrightarrow> findUser wc env version t s = Inl (a, s') \<Longrightarrow> s' = s"
  "outages s = [] \<Longrightarrow> findUser wc env version t s = Inr (a, u, c, s') \<Longrightarrow> s' = s"
  by (auto simp: findUser_def exec_select_token Let_def split: option.splits if_splits)

lemma lookupUser_tables_unchanged:
  "lk_user (lookupUser wc env version t s) = None \<Longrightarrow>
   tables (lk_store (lookupUser wc env version t s)) = tables s"
  by (auto simp: lookupUser_def caught_def refresh_tables_unchanged findUser_tables
           split: sum.splits)

lemma lookupUser_store_unchanged:
  assumes "outages s = []" "lk_user (lookupUser wc env version t s) = None"
  shows "lk_store (lookupUser wc env version t s) = s"
proof (cases "findUser wc env version t s")
  case (Inl p)
  then show ?thesis
    using findUser_store(1)[OF assms(1), of wc env version t "fst p" "snd p"]
    by (auto simp: lookupUser_def caught_def split: prod.splits)
next
  case (Inr p)
  obtain a u c s' where p: "p = (a, u, c, s')" by (cases p)
  from findUser_store(2)[OF assms(1), of wc env version t a u c s'] Inr p
  have "s' = s" by simp
  with Inr p assms show ?thesis
    by (simp add: lookupUser_def refresh_store_unchanged)
qed

lemma sessionLookup_tables_unchanged:
  "lk_user (sessionLookup wc env version req s) = None \<Longrightarrow>
   tables (lk_store (sessionLookup wc env version req s)) = tables s"
  by (auto simp: sessionLookup_def caught_def lookupUser_tables_unchanged split: option.splits)

lemma sessionLookup_store_unchanged:
  "outages s = [] \<Longrightarrow> lk_user (sessionLookup wc env version req s) = None \<Longrightarrow>
   lk_store (sessionLookup wc env version req s) = s"
  by (auto simp: sessionLookup_def caught_def lookupUser_store_unchanged split: option.splits)

lemma sessionLookup_no_credential:
  "\<not> truthy (requestAccessToken req) \<Longrightarrow> sessionLookup wc env version req s = caught [] s"
  by (cases "requestAccessToken req") (auto simp: sessionLookup_def)

lemma sessionLookup_no_row:
  assumes "requestAccessToken req = Some t" "t \<noteq> []"
    and "rowOf s (shardName version (getDOName (encryptToken wc t (DB_SECRET env)))) t = None"
  shows "lk_user (sessionLookup wc env version req s) = None \<and>
         lk_accessToken (sessionLookup wc env version req s) = t"
  using assms
  by (auto simp: sessionLookup_def lookupUser_def findUser_def exec_select_token caught_def
        Let_def getClientReferenceId_def refreshClientReferenceId_def)

text \<open>
  C4, as the code has it. When the credential of the request is absent or does not
  resolve to a stored row (no row, a forwarding pointer without a target, or a failing
  store), the resolver writes nothing (the rows of every shard are as before, and with
  no outage pending the store is the same) and returns an unpersisted user with balance
  0 and no email. Its credential is the presented one (after a redirect, the target of
  the pointer) when that has the UUID format, and the fresh \<open>crypto.randomUUID()\<close>
  otherwise.
\<close>

theorem unresolved_session_unpersisted:
  assumes "lk_user (sessionLookup wc env version req s) = None"
  shows "let (sess, s') = handleUserSession wc env version req uuid s;
             t = lk_accessToken (sessionLookup wc env version req s);
             credential = (if t = [] \<or> \<not> uuidGeneralRegex t then uuid else t)
         in tables s' = tables s \<and> (outages s = [] \<longrightarrow> s' = s) \<and>
            user sess = unpersistedUser wc env credential \<and>
            access_token (user sess) = credential \<and> balance (user sess) = 0 \<and>
            email (user sess) = None"
  using assms sessionLookup_tables_unchanged[OF assms]
    sessionLookup_store_unchanged[OF _ assms]
  by (simp add: handleUserSession_def Let_def unpersistedUser_def)

lemma example_token_uuid: "uuidGeneralRegex ''123e4567-e89b-12d3-a456-426614174000''"
  by (simp add: uuidGeneralRegex_def is_hex_def upt_rec)

lemma example_request_token:
  "requestAccessToken example_request = Some ''123e4567-e89b-12d3-a456-426614174000''"
  by (simp add: requestAccessToken_def bearerToken_def example_request_def)

lemma example_lookup:
  "sessionLookup wc env version example_request empty_store =
     \<lparr>lk_accessToken = ''123e4567-e89b-12d3-a456-426614174000'', lk_user = None,
      lk_client = Some (userClient version (getDOName
         (encryptToken wc ''123e4567-e89b-12d3-a456-426614174000'' (DB_SECRET env)))),
      lk_store = empty_store\<rparr>"
  by (simp add: sessionLookup_def example_request_token lookupUser_def findUser_def
        exec_select_token rowOf_def empty_store_def refreshClientReferenceId_def
        getClientReferenceId_def Let_def)

theorem unresolved_session_unpersisted_witness:
  "lk_user (sessionLookup example_webcrypto example_env ''1'' example_request empty_store) = None \<and>
   (let (sess, s') = handleUserSession example_webcrypto example_env ''1'' example_request
                       ''9b2e4f6a-0c1d-4e8f-a3b5-7d9e1f2a4c6b'' empty_store
    in s' = empty_store \<and> access_token (user sess) = ''123e4567-e89b-12d3-a456-426614174000'' \<and>
       balance (user sess) = 0 \<and> email (user sess) = None)"
proof -
  have h: "lk_user (sessionLookup example_webcrypto example_env ''1'' example_request empty_store)
             = None"
    by (simp add: example_lookup)
  have steady: "outages empty_store = []"
    by (simp add: empty_store_def)
  show ?thesis
    using h steady
      unresolved_session_unpersisted [OF h, of "''9b2e4f6a-0c1d-4e8f-a3b5-7d9e1f2a4c6b''"]
    by (simp add: example_lookup example_token_uuid Let_def unpersistedUser_def
          split: prod.splits)
qed

text \<open>
  C4 as stated fails: a UUID-shaped credential without a stored row is kept, no fresh
  one is minted.
\<close>

theorem unresolved_session_keeps_uuid_credential:
  "lk_user (sessionLookup example_webcrypto example_env ''1'' example_request empty_store) = None \<and>
   access_token (user (fst (handleUserSession example_webcrypto example_env ''1'' example_request
                              ''9b2e4f6a-0c1d-4e8f-a3b5-7d9e1f2a4c6b'' empty_store))) =
     ''123e4567-e89b-12d3-a456-426614174000'' \<and>
   access_token (user (fst (handleUserSession example_webcrypto example_env ''1'' example_request
                              ''9b2e4f6a-0c1d-4e8f-a3b5-7d9e1f2a4c6b'' empty_store))) \<noteq>
     ''9b2e4f6a-0c1d-4e8f-a3b5-7d9e1f2a4c6b''"
  by (simp add: handleUserSession_def example_lookup example_token_uuid unpersistedUser_def Let_def)

lemma example_session:
  "handleUserSession wc env version example_request uuid empty_store =
     (\<lparr>user = unpersistedUser wc env ''123e4567-e89b-12d3-a456-426614174000'',
       client = Some (userClient version (getDOName
          (encryptToken wc ''123e4567-e89b-12d3-a456-426614174000'' (DB_SECRET env)))),
       headers = [(''Set-Cookie'', ''access_token='' @ ''123e4567-e89b-12d3-a456-426614174000'' @
                    cookieSuffix env (hostname example_request))]\<rparr>, empty_store)"
  by (simp add: handleUserSession_def example_lookup example_token_uuid unpersistedUser_def Let_def)

lemma charge_empty_store:
  "access_token usr \<noteq> [] \<Longrightarrow>
   charge (Some (userClient version (getDOName cri))) usr amountCent allowNegativeBalance empty_store =
     (Returned \<lparr>charged = False, message = ''User balance too low''\<rparr>, empty_store)"
  by (cases allowNegativeBalance)
     (simp_all add: charge_def chargeStatement_def exec_userClient empty_store_def fun_eq_iff)

text \<open>
  Without a credential the session has no store handle, and a charge without a handle
  answers that the user is not signed up and leaves the store alone.
\<close>

lemma session_without_credential:
  assumes "\<not> truthy (requestAccessToken req)"
  shows "client (fst (handleUserSession wc env version req uuid s)) = None \<and>
         snd (handleUserSession wc env version req uuid s) = s"
  using sessionLookup_no_credential[OF assms, of wc env version s]
  by (simp add: handleUserSession_def caught_def Let_def)

lemma charge_without_client:
  "charge None usr amountCent allowNegativeBalance s =
     (Returned \<lparr>charged = False,
                message = ''User is not signed up yet and cannot be charged''\<rparr>, s)"
  by (simp add: charge_def)

text \<open>
  C5 at a failing input: a request whose cookie carries a credential that has no stored
  row. The session carries a store handle, and a charge through it answers
  "User balance too low", not "User is not signed up yet and cannot be charged".
\<close>

theorem unpersisted_session_has_client:
  "rowOf empty_store
     (shardName ''1'' (getDOName (encryptToken example_webcrypto
        ''123e4567-e89b-12d3-a456-426614174000'' (DB_SECRET example_env))))
     ''123e4567-e89b-12d3-a456-426614174000'' = None \<and>
   (case handleUserSession example_webcrypto example_env ''1'' example_request
           ''9b2e4f6a-0c1d-4e8f-a3b5-7d9e1f2a4c6b'' empty_store of
      (sess, s') \<Rightarrow>
        client sess \<noteq> None \<and>
        charge (client sess) (user sess) 1 False s' =
          (Returned \<lparr>charged = False, message = ''User balance too low''\<rparr>, s'))"
proof -
  have "rowOf empty_store
     (shardName ''1'' (getDOName (encryptToken example_webcrypto
        ''123e4567-e89b-12d3-a456-426614174000'' (DB_SECRET example_env))))
     ''123e4567-e89b-12d3-a456-426614174000'' = None"
    by (simp add: rowOf_def empty_store_def)
  moreover have "access_token (unpersistedUser example_webcrypto example_env
                   ''123e4567-e89b-12d3-a456-426614174000'') \<noteq> []"
    by (simp add: unpersistedUser_def)
  ultimately show ?thesis
    by (simp add: example_session charge_empty_store)
qed

lemma findUser_found:
  assumes "outages s = []" "findUser wc env version t s = Inr (a, Some u, c, s')"
  shows "s' = s \<and> c = userClient version (getDOName (encryptToken wc a (DB_SECRET env))) \<and>
         rowOf s (shardName version (getDOName (encryptToken wc a (DB_SECRET env)))) a = Some u \<and>
         shardName version (getDOName (encryptToken wc a (DB_SECRET env))) \<notin> unavailable s"
  using assms
  by (auto simp: findUser_def exec_select_token Let_def getClientReferenceId_def
           split: option.splits if_splits)

lemma refresh_found:
  assumes steady: "outages s = []"
    and up: "shardName version (getDOName cri0) \<notin> unavailable s"
    and row: "rowOf s (shardName version (getDOName cri0)) a = Some u"
  shows "\<exists>s'. refreshClientReferenceId wc env a (Some u) (userClient version (getDOName cri0)) s =
           \<lparr>lk_accessToken = a,
            lk_user = Some (u\<lparr>client_reference_id := Some (encryptToken wc a (DB_SECRET env))\<rparr>),
            lk_client = Some (userClient version (getDOName cri0)), lk_store = s'\<rparr> \<and>
          unavailable s' = unavailable s \<and> outages s' = [] \<and>
          (\<forall>m k. m \<noteq> shardName version AGGREGATE_NAME \<longrightarrow>
             rowOf s' m k =
               (if m = shardName version (getDOName cri0) \<and> k = a
                then Some (u\<lparr>client_reference_id := Some (encryptToken wc a (DB_SECRET env))\<rparr>)
                else rowOf s m k)) \<and>
          (client_reference_id u = Some (encryptToken wc a (DB_SECRET env)) \<longrightarrow> s' = s)"
proof (cases "client_reference_id u = Some (encryptToken wc a (DB_SECRET env))")
  case True
  then have "u\<lparr>client_reference_id := Some (encryptToken wc a (DB_SECRET env))\<rparr> = u"
    by simp
  with True row steady show ?thesis
    by (auto simp: refreshClientReferenceId_def Let_def)
next
  case False
  let ?q = "UpdateWhere (\<lambda>r. r\<lparr>client_reference_id := Some (encryptToken wc a (DB_SECRET env))\<rparr>)
                        (\<lambda>r. access_token r = a)"
  from exec_update_ok[OF up] obtain res s' where
    ex: "exec (userClient version (getDOName cri0)) ?q s = (Inr res, s')"
    by blast
  have rows: "\<And>m k. m \<noteq> shardName version AGGREGATE_NAME \<Longrightarrow>
      rowOf s' m k = (if m = shardName version (getDOName cri0) \<and> k = a
                      then map_option (\<lambda>r. r\<lparr>client_reference_id :=
                             Some (encryptToken wc a (DB_SECRET env))\<rparr>) (rowOf s m k)
                      else rowOf s m k)"
    by (rule rowOf_exec_update[OF ex]) simp_all
  show ?thesis
    using False ex exec_unavailable[OF steady ex] rows row
    by (auto simp: refreshClientReferenceId_def Let_def)
qed

text \<open>
  C8. When the resolver finds an effective user row \<open>u\<close> under the credential
  \<open>a\<close> (the presented one, or the target of its forwarding pointer), the user it
  returns and the row stored in the shard of \<open>a\<close> are \<open>u\<close> with
  \<open>client_reference_id\<close> set to the current encoding of \<open>a\<close> and every other
  field as before; when the stored value is already that encoding the store is left as
  it was. (No outage is pending, so the shard that served the lookup also serves the
  write.)
\<close>

theorem session_refreshes_client_reference_id:
  assumes cred: "requestAccessToken req = Some t" "t \<noteq> []"
    and found: "findUser wc env version t s = Inr (a, Some u, c, s0)"
    and steady: "outages s = []"
  shows "let (sess, s') = handleUserSession wc env version req uuid s;
             cri = encryptToken wc a (DB_SECRET env)
         in user sess = u\<lparr>client_reference_id := Some cri\<rparr> \<and>
            rowOf s' (shardName version (getDOName cri)) a =
              Some (u\<lparr>client_reference_id := Some cri\<rparr>) \<and>
            (client_reference_id u = Some cri \<longrightarrow> s' = s)"
proof -
  let ?cri = "encryptToken wc a (DB_SECRET env)"
  from findUser_found[OF steady found]
  have s0: "s0 = s" and c: "c = userClient version (getDOName ?cri)"
    and row: "rowOf s (shardName version (getDOName ?cri)) a = Some u"
    and up: "shardName version (getDOName ?cri) \<notin> unavailable s"
    by simp_all
  from refresh_found[OF steady up row, of wc env] obtain s' where
    r: "refreshClientReferenceId wc env a (Some u) (userClient version (getDOName ?cri)) s =
           \<lparr>lk_accessToken = a, lk_user = Some (u\<lparr>client_reference_id := Some ?cri\<rparr>),
            lk_client = Some (userClient version (getDOName ?cri)), lk_store = s'\<rparr>"
    and rows: "\<forall>m k. m \<noteq> shardName version AGGREGATE_NAME \<longrightarrow>
             rowOf s' m k = (if m = shardName version (getDOName ?cri) \<and> k = a
                then Some (u\<lparr>client_reference_id := Some ?cri\<rparr>) else rowOf s m k)"
    and same: "client_reference_id u = Some ?cri \<longrightarrow> s' = s"
    by blast
  have lk: "sessionLookup wc env version req s =
              \<lparr>lk_accessToken = a, lk_user = Some (u\<lparr>client_reference_id := Some ?cri\<rparr>),
               lk_client = Some (userClient version (getDOName ?cri)), lk_store = s'\<rparr>"
    using cred found r by (simp add: sessionLookup_def lookupUser_def s0 c)
  show ?thesis
    using rows same user_shard_not_aggregate[of version ?cri]
    by (simp add: handleUserSession_def lk Let_def)
qed

lemma example_request_T1_token: "requestAccessToken example_request_T1 = Some ''T1''"
  by (simp add: requestAccessToken_def bearerToken_def example_request_T1_def ascii_lower_def)

lemma example_findUser:
  "findUser wc env ''1'' ''T1''
     (example_store (shardName ''1'' (getDOName (encryptToken wc ''T1'' (DB_SECRET env))))) =
   Inr (''T1'', Some example_user,
        userClient ''1'' (getDOName (encryptToken wc ''T1'' (DB_SECRET env))),
        example_store (shardName ''1'' (getDOName (encryptToken wc ''T1'' (DB_SECRET env)))))"
  by (simp add: findUser_def exec_select_token getClientReferenceId_def Let_def
        example_store_def rowOf_def example_user_def)

theorem session_refreshes_client_reference_id_witness:
  "requestAccessToken example_request_T1 = Some ''T1'' \<and> ''T1'' \<noteq> [] \<and>
   (let sh = shardName ''1'' (getDOName (encryptToken example_webcrypto ''T1''
                                          (DB_SECRET example_env)));
        (sess, s') = handleUserSession example_webcrypto example_env ''1'' example_request_T1
                       ''9b2e4f6a-0c1d-4e8f-a3b5-7d9e1f2a4c6b'' (example_store sh)
    in findUser example_webcrypto example_env ''1'' ''T1'' (example_store sh) =
         Inr (''T1'', Some example_user,
              userClient ''1'' (getDOName (encryptToken example_webcrypto ''T1''
                                            (DB_SECRET example_env))),
              example_store sh) \<and>
       user sess = example_user\<lparr>client_reference_id :=
                     Some (encryptToken example_webcrypto ''T1'' (DB_SECRET example_env))\<rparr> \<and>
       rowOf s' sh ''T1'' =
         Some (example_user\<lparr>client_reference_id :=
                 Some (encryptToken example_webcrypto ''T1'' (DB_SECRET example_env))\<rparr>))"
proof -
  have h1: "requestAccessToken example_request_T1 = Some ''T1''"
    by (rule example_request_T1_token)
  have h2: "''T1'' \<noteq> []" by simp
  note h3 = example_findUser[of example_webcrypto example_env]
  have h4: "outages (example_store (shardName ''1'' (getDOName
              (encryptToken example_webcrypto ''T1'' (DB_SECRET example_env))))) = []"
    by (simp add: example_store_def)
  show ?thesis
    using h1 h3 session_refreshes_client_reference_id [OF h1 h2 h3 h4,
      of "''9b2e4f6a-0c1d-4e8f-a3b5-7d9e1f2a4c6b''"]
    by (simp add: Let_def split: prod.splits)
qed

section \<open>The \<open>/me\<close> endpoint and the wrapper\<close>

lemma meBody_frame:
  "meBody env (usr\<lparr>access_token := a, verified_user_access_token := v\<rparr>) = meBody env usr"
  by (simp add: meBody_def paymentLinkOf_def registeredOf_def)

text \<open>
  C10. With the environment set up, the response to a request for \<open>/me\<close> is the
  JSON object \<open>meBody\<close> of the resolved user, and \<open>meBody\<close> does not depend on
  \<open>access_token\<close> and \<open>verified_user_access_token\<close>: two users that differ only
  in these two fields get the same body.
\<close>

theorem me_body_hides_tokens:
  assumes env: "DB_SECRET env \<noteq> []" "STRIPE_PAYMENT_LINK env \<noteq> []"
      "STRIPE_PUBLISHABLE_KEY env \<noteq> []" "STRIPE_SECRET env \<noteq> []"
      "STRIPE_WEBHOOK_SIGNING_SECRET env \<noteq> []"
    and path: "pathname req = ''/me''"
  shows "(case handleUserSession wc env version req uuid s of
           (sess, s') \<Rightarrow>
             stripeBalanceMiddleware wc pf env version req uuid newAccessToken s =
               (Returned (ResponseResult
                  \<lparr>status = 200, response_headers = headers sess,
                   response_body = Json (meBody env (user sess))\<rparr>), s')) \<and>
         (\<forall>usr a v. meBody env (usr\<lparr>access_token := a, verified_user_access_token := v\<rparr>) =
                    meBody env usr)"
  using assms
  by (simp add: stripeBalanceMiddleware_def sessionResult_def meBody_frame Let_def
        split: prod.splits)












lemma handleUserSession_empty_store:
  assumes "requestAccessToken req = Some t" "uuidGeneralRegex t"
  shows "handleUserSession wc env version req uuid empty_store =
     (\<lparr>user = unpersistedUser wc env t,
       client = Some (userClient version (getDOName (encryptToken wc t (DB_SECRET env)))),
       headers = [(''Set-Cookie'', ''access_token='' @ t @ cookieSuffix env (hostname req))]\<rparr>,
      empty_store)"
proof -
  from assms(2) have ne: "t \<noteq> []"
    by (auto simp: uuidGeneralRegex_def)
  have "rowOf empty_store (shardName version (getDOName (encryptToken wc t (DB_SECRET env)))) t
          = None"
    by (simp add: rowOf_def empty_store_def)
  with assms(1) ne have lk: "sessionLookup wc env version req empty_store =
     \<lparr>lk_accessToken = t, lk_user = None,
      lk_client = Some (userClient version (getDOName (encryptToken wc t (DB_SECRET env)))),
      lk_store = empty_store\<rparr>"
    by (simp add: sessionLookup_def lookupUser_def findUser_def exec_select_token
          refreshClientReferenceId_def getClientReferenceId_def Let_def)
       (simp add: empty_store_def)
  show ?thesis
    using assms(2) ne
    by (simp add: handleUserSession_def lk unpersistedUser_def Let_def)
qed

lemma example_request_me_token:
  "requestAccessToken example_request_me = Some ''123e4567-e89b-12d3-a456-426614174000''"
  by (simp add: requestAccessToken_def bearerToken_def example_request_me_def example_request_def)

lemma example_request_me_host: "hostname example_request_me = ''example.com''"
  by (simp add: example_request_me_def example_request_def)


theorem me_body_hides_tokens_witness:
  "DB_SECRET example_env \<noteq> [] \<and> STRIPE_PAYMENT_LINK example_env \<noteq> [] \<and>
   STRIPE_PUBLISHABLE_KEY example_env \<noteq> [] \<and> STRIPE_SECRET example_env \<noteq> [] \<and>
   STRIPE_WEBHOOK_SIGNING_SECRET example_env \<noteq> [] \<and> pathname example_request_me = ''/me'' \<and>
   stripeBalanceMiddleware example_webcrypto example_platform example_env ''1'' example_request_me
     ''9b2e4f6a-0c1d-4e8f-a3b5-7d9e1f2a4c6b'' ''5c0f3b1e-7a2d-4c9b-8e6f-1a3b5c7d9e0f'' empty_store =
   (Returned (ResponseResult
      \<lparr>status = 200,
       response_headers =
         [(''Set-Cookie'',
           ''access_token=123e4567-e89b-12d3-a456-426614174000; Domain=example.com; HttpOnly; Path=/; Secure; Max-Age=34560000; SameSite=Lax'')],
       response_body =
         Json [(''balance'', JNum 0), (''name'', JNull), (''email'', JNull),
               (''verified_email'', JNull), (''card_fingerprint'', JNull),
               (''client_reference_id'',
                JStr (encryptToken example_webcrypto ''123e4567-e89b-12d3-a456-426614174000''
                        ''0123456789abcdef'')),
               (''paymentLink'',
                JStr (''https://buy.stripe.com/x?client_reference_id='' @
                      encodeURIComponent
                        (encryptToken example_webcrypto ''123e4567-e89b-12d3-a456-426614174000''
                           ''0123456789abcdef''))),
               (''registered'', JBool False)]\<rparr>), empty_store)"
proof -
  have h1: "DB_SECRET example_env \<noteq> []" and h2: "STRIPE_PAYMENT_LINK example_env \<noteq> []"
    and h3: "STRIPE_PUBLISHABLE_KEY example_env \<noteq> []" and h4: "STRIPE_SECRET example_env \<noteq> []"
    and h5: "STRIPE_WEBHOOK_SIGNING_SECRET example_env \<noteq> []"
    by (simp_all add: example_env_def)
  have h6: "pathname example_request_me = ''/me''"
    by (simp add: example_request_me_def)
  have sec: "DB_SECRET example_env = ''0123456789abcdef''"
    and link: "STRIPE_PAYMENT_LINK example_env = ''https://buy.stripe.com/x''"
    and skip: "SKIP_LOGIN example_env = None"
    by (simp_all add: example_env_def)
  note ne = encryptToken_nonempty[OF example_webcrypto_ok,
      of "''123e4567-e89b-12d3-a456-426614174000''" "''0123456789abcdef''"]
  show ?thesis
    using h1 h2 h3 h4 h5 h6 ne
      me_body_hides_tokens [where wc = example_webcrypto and version = "''1''"
        and uuid = "''9b2e4f6a-0c1d-4e8f-a3b5-7d9e1f2a4c6b''" and s = empty_store
        and pf = example_platform
        and newAccessToken = "''5c0f3b1e-7a2d-4c9b-8e6f-1a3b5c7d9e0f''",
        OF h1 h2 h3 h4 h5 h6]
    by (simp add: handleUserSession_empty_store[OF example_request_me_token example_token_uuid]
          example_request_me_host unpersistedUser_def meBody_def paymentLinkOf_def
          registeredOf_def json_of_def cookieSuffix_def sec link skip Let_def)
qed






lemma middleware_session:
  assumes "\<not> (DB_SECRET env = [] \<or> STRIPE_PAYMENT_LINK env = [] \<or>
              STRIPE_PUBLISHABLE_KEY env = [] \<or> STRIPE_SECRET env = [] \<or>
              STRIPE_WEBHOOK_SIGNING_SECRET env = [])"
    and "pathname req = ''/''"
    and "handleUserSession wc env version req uuid s = (sess, s1)"
  shows "stripeBalanceMiddleware wc pf env version req uuid newAccessToken s =
           (Returned (SessionResult
              \<lparr>ms_user = user sess, ms_headers = headers sess, ms_client = client sess,
               ms_paymentLink = paymentLinkOf env (user sess),
               ms_registered = registeredOf (user sess)\<rparr>), s1)"
  using assms by (simp add: stripeBalanceMiddleware_def sessionResult_def Let_def)




section \<open>Token rotation\<close>
































section \<open>Payment reconciliation\<close>

lemma exec_aggregate_select:
  "exec (aggregateClient version) (SelectWhere p) s =
     (if shardName version AGGREGATE_NAME \<in> unavailable s then Inl StoreUnavailable
      else Inr \<lparr>one = find p (tables s (shardName version AGGREGATE_NAME)), rowsWritten = 0\<rparr>,
      elapse s)"
  by (simp add: aggregateClient_def exec_select)

lemma handleStripeWebhook_event:
  assumes "request_body req = Some b" "stripe_signature req = Some sg" "sg \<noteq> []"
    and "constructEventAsync pf b sg (STRIPE_WEBHOOK_SIGNING_SECRET env) = Inr event"
    and "event_type event = ''checkout.session.completed''"
  shows "handleStripeWebhook wc pf env version req s =
           checkoutSessionCompleted wc pf env version (event_object event) s"
  using assms by (simp add: handleStripeWebhook_def)

lemma checkout_rejected:
  assumes "payment_status sess \<noteq> ''paid'' \<or> amount_total sess = None \<or>
           amount_total sess = Some 0 \<or> \<not> truthy (session_client_reference_id sess) \<or>
           \<not> truthy (case session_customer_details sess of None \<Rightarrow> None | Some d \<Rightarrow> cd_email d) \<or>
           DB_SECRET env = [] \<or>
           (\<exists>cri e. session_client_reference_id sess = Some cri \<and>
                    decryptToken wc cri (DB_SECRET env) = Inl e)"
  shows "\<exists>r. checkoutSessionCompleted wc pf env version sess s = (Returned r, s) \<and>
             status r =
               (if payment_status sess = ''paid'' \<and> amount_total sess \<noteq> None \<and>
                   amount_total sess \<noteq> Some 0 \<and> truthy (session_client_reference_id sess) \<and>
                   truthy (case session_customer_details sess of
                             None \<Rightarrow> None | Some d \<Rightarrow> cd_email d) \<and>
                   DB_SECRET env \<noteq> []
                then 200 else 400)"
  using assms
  by (auto simp: checkoutSessionCompleted_def textResponse_def
           split: option.splits sum.splits)


lemma find_in_table:
  "find p t = Some r \<Longrightarrow> find (\<lambda>x. access_token x = access_token r) t \<noteq> None"
proof -
  assume "find p t = Some r"
  then have "r \<in> set t"
    by (auto simp: find_Some_iff)
  then show ?thesis
    by (auto simp: find_None_iff)
qed

lemma findAlternate_available:
  assumes "outages s = []" "shardName version AGGREGATE_NAME \<notin> unavailable s"
  shows "findAlternate version verified fingerprint s =
           (Inr (let userFromEmail =
                      (if truthy verified
                       then find (\<lambda>r. verified_email r = verified)
                              (tables s (shardName version AGGREGATE_NAME))
                       else None);
                    userFromFingerprint =
                      (if truthy fingerprint
                       then find (\<lambda>r. card_fingerprint r = fingerprint)
                              (tables s (shardName version AGGREGATE_NAME))
                       else None)
                in if truthy (map_option access_token userFromEmail)
                   then map_option access_token userFromEmail
                   else map_option access_token userFromFingerprint), s)"
  using assms by (simp add: findAlternate_def exec_aggregate_select Let_def)

lemma reconcile_existing:
  assumes steady: "outages s = []"
    and up: "shardName version AGGREGATE_NAME \<notin> unavailable s"
    and row: "rowOf s (shardName version AGGREGATE_NAME) token = Some r"
  shows "reconcile wc pf env version sess cri token amount mail nm s =
           (case exec (userClient version (getDOName cri))
                   (creditStatement amount mail (or_null nm) token) s of
              (Inl e, s1) \<Rightarrow> (Threw e, s1)
            | (Inr res, s1) \<Rightarrow>
                (Returned (textResponse 200 ''Payment processed successfully''), s1))"
  using assms
  by (simp add: reconcile_def exec_aggregate_select rowOf_def Let_def)

text \<open>The alternate identity that the two aggregate lookups yield.\<close>

lemma reconcile_alternate:
  assumes steady: "outages s = []"
    and up: "shardName version AGGREGATE_NAME \<notin> unavailable s"
    and norow: "rowOf s (shardName version AGGREGATE_NAME) token = None"
    and pi: "paymentIntents_retrieve pf (payment_intent sess) = Inr latest_charge"
    and ch: "charges_retrieve pf latest_charge = Inr pmd"
    and alt: "findAlternate version
                (case pmd of None \<Rightarrow> None
                 | Some d \<Rightarrow> if pmd_type d = ''link'' then Some mail else None)
                (case pmd of None \<Rightarrow> None | Some d \<Rightarrow> pmd_card_fingerprint d) s =
              (Inr (Some A), sf)"
    and A: "A \<noteq> []"
    and stub_up: "shardName version (getDOName cri) \<notin> unavailable s"
    and stub_free: "rowOf s (shardName version (getDOName cri)) token = None"
    and A_up: "shardName version (getDOName (encryptToken wc A (DB_SECRET env))) \<notin> unavailable s"
  shows "\<exists>s'. reconcile wc pf env version sess cri token amount mail nm s =
                 (Returned (textResponse 200 ''Payment processed successfully''), s') \<and>
              rowOf s' (shardName version (getDOName cri)) token = Some (stubRow token A) \<and>
              rowOf s' (shardName version (getDOName (encryptToken wc A (DB_SECRET env)))) A =
                map_option (\<lambda>r. r\<lparr>balance := balance r + amount, email := Some mail,
                                   name := or_null nm\<rparr>)
                  (rowOf s (shardName version (getDOName (encryptToken wc A (DB_SECRET env)))) A)"
proof -
  let ?agg = "shardName version AGGREGATE_NAME"
  let ?stub = "shardName version (getDOName cri)"
  let ?shA = "shardName version (getDOName (encryptToken wc A (DB_SECRET env)))"
  let ?f = "\<lambda>r. r\<lparr>balance := balance r + amount, email := Some mail, name := or_null nm\<rparr>"
  from alt findAlternate_available[OF steady up] have sf: "sf = s"
    by simp
  have inA: "rowOf s ?agg A \<noteq> None"
    using alt find_in_table[of _ "tables s ?agg"]
    by (auto simp: findAlternate_available[OF steady up] rowOf_def Let_def split: if_splits)
  with norow have ne: "A \<noteq> token" by auto
  have tokstub: "access_token (stubRow token A) = token"
    by (simp add: stubRow_def)
  from stub_free have free': "rowOf s ?stub (access_token (stubRow token A)) = None"
    by (simp add: tokstub)
  from exec_insert_ok[OF stub_up free'] obtain res3 s3 where
    ins: "exec (userClient version (getDOName cri)) (InsertRow (stubRow token A)) s =
            (Inr res3, s3)"
    by blast
  have rows3: "\<And>m k. m \<noteq> ?agg \<Longrightarrow>
      rowOf s3 m k = (if m = ?stub \<and> k = token then Some (stubRow token A) else rowOf s m k)"
    using rowOf_exec_insert[OF ins] by (simp add: tokstub)
  from exec_unavailable[OF steady ins] A_up have A_up3: "?shA \<notin> unavailable s3" by simp
  from exec_update_ok[OF A_up3] obtain res4 s4 where
    upd: "exec (userClient version (getDOName (encryptToken wc A (DB_SECRET env))))
            (UpdateWhere ?f (\<lambda>r. access_token r = A)) s3 = (Inr res4, s4)"
    by blast
  have rows4: "\<And>m k. m \<noteq> ?agg \<Longrightarrow>
      rowOf s4 m k = (if m = ?shA \<and> k = A then map_option ?f (rowOf s3 m k) else rowOf s3 m k)"
    by (rule rowOf_exec_update[OF upd]) simp_all
  have r1: "rowOf s4 ?stub token = Some (stubRow token A)"
    using rows3 rows4 ne user_shard_not_aggregate[of version] by simp
  have r2: "rowOf s4 ?shA A = map_option ?f (rowOf s ?shA A)"
    using rows3 rows4 ne user_shard_not_aggregate[of version] by simp
  have sel: "exec (aggregateClient version) (SelectWhere (\<lambda>r. access_token r = token)) s =
               (Inr \<lparr>one = None, rowsWritten = 0\<rparr>, s)"
    using steady up norow by (simp add: exec_aggregate_select rowOf_def)
  have "reconcile wc pf env version sess cri token amount mail nm s =
          (Returned (textResponse 200 ''Payment processed successfully''), s4)"
    unfolding reconcile_def sel
    using pi ch A ne ins upd
    by (simp add: alt sf Let_def creditStatement_def getClientReferenceId_def)
  with r1 r2 show ?thesis by blast
qed


text \<open>
  C3. A verified, paid \<open>checkout.session.completed\<close> event whose
  \<open>client_reference_id\<close> decrypts to \<open>token\<close>, with no row for \<open>token\<close> in the
  aggregate shard, and for which the lookups in the aggregate shard (by verified email,
  which is set only for the payment method type \<open>link\<close>, then by card fingerprint)
  yield the access token \<open>A\<close>: the handler answers 200, the shard named by the
  \<open>client_reference_id\<close> holds for \<open>token\<close> a row with the forwarding pointer \<open>A\<close>,
  balance 0 and no other field, and the row of \<open>A\<close> in the shard of \<open>A\<close> has its
  balance raised by the amount and its email and name overwritten. (The shards
  involved can be reached and no outage is pending.)
\<close>

theorem payment_merges_into_alternate_identity:
  assumes body: "request_body req = Some b"
    and sg: "stripe_signature req = Some sg" "sg \<noteq> []"
    and event: "constructEventAsync pf b sg (STRIPE_WEBHOOK_SIGNING_SECRET env) = Inr event"
      "event_type event = ''checkout.session.completed''"
    and paid: "payment_status (event_object event) = ''paid''"
      "amount_total (event_object event) = Some amount" "amount \<noteq> 0"
    and cri: "session_client_reference_id (event_object event) = Some cri" "cri \<noteq> []"
    and details: "session_customer_details (event_object event) = Some details"
      "cd_email details = Some mail" "mail \<noteq> []"
    and secret: "DB_SECRET env \<noteq> []"
    and dec: "decryptToken wc cri (DB_SECRET env) = Inr token"
    and up: "shardName version AGGREGATE_NAME \<notin> unavailable s"
    and norow: "rowOf s (shardName version AGGREGATE_NAME) token = None"
    and pi: "paymentIntents_retrieve pf (payment_intent (event_object event)) = Inr latest_charge"
    and ch: "charges_retrieve pf latest_charge = Inr pmd"
    and alt: "(let userFromEmail =
                     (case pmd of
                        None \<Rightarrow> None
                      | Some d \<Rightarrow>
                          if pmd_type d = ''link''
                          then find (\<lambda>r. verified_email r = Some mail)
                                 (tables s (shardName version AGGREGATE_NAME))
                          else None);
                   userFromFingerprint =
                     (case pmd of
                        None \<Rightarrow> None
                      | Some d \<Rightarrow>
                          if truthy (pmd_card_fingerprint d)
                          then find (\<lambda>r. card_fingerprint r = pmd_card_fingerprint d)
                                 (tables s (shardName version AGGREGATE_NAME))
                          else None)
               in if truthy (map_option access_token userFromEmail)
                  then map_option access_token userFromEmail
                  else map_option access_token userFromFingerprint) = Some A"
    and A: "A \<noteq> []"
    and stub_up: "shardName version (getDOName cri) \<notin> unavailable s"
    and stub_free: "rowOf s (shardName version (getDOName cri)) token = None"
    and A_up: "shardName version (getDOName (encryptToken wc A (DB_SECRET env))) \<notin> unavailable s"
    and A_row: "rowOf s (shardName version (getDOName (encryptToken wc A (DB_SECRET env)))) A
                  = Some rowA"
    and steady: "outages s = []"
  shows "\<exists>s'. handleStripeWebhook wc pf env version req s =
                 (Returned (textResponse 200 ''Payment processed successfully''), s') \<and>
              rowOf s' (shardName version (getDOName cri)) token =
                Some \<lparr>access_token = token, verified_user_access_token = Some A,
                      client_reference_id = None, name = None, balance = 0, email = None,
                      card_fingerprint = None, verified_email = None\<rparr> \<and>
              rowOf s' (shardName version (getDOName (encryptToken wc A (DB_SECRET env)))) A =
                Some (rowA\<lparr>balance := balance rowA + amount, email := Some mail,
                           name := or_null (cd_name details)\<rparr>)"
proof -
  let ?sess = "event_object event"
  have alt': "findAlternate version
                (case pmd of None \<Rightarrow> None
                 | Some d \<Rightarrow> if pmd_type d = ''link'' then Some mail else None)
                (case pmd of None \<Rightarrow> None | Some d \<Rightarrow> pmd_card_fingerprint d) s =
              (Inr (Some A), s)"
  proof (cases pmd)
    case None
    with alt show ?thesis
      by (simp add: findAlternate_available[OF steady up] Let_def)
  next
    case (Some d)
    show ?thesis
    proof (cases "pmd_type d = ''link''")
      case True
      with alt Some details(3) show ?thesis
        by (cases "truthy (pmd_card_fingerprint d)")
           (simp_all add: findAlternate_available[OF steady up] Let_def)
    next
      case False
      with alt Some show ?thesis
        by (cases "truthy (pmd_card_fingerprint d)")
           (simp_all add: findAlternate_available[OF steady up] Let_def)
    qed
  qed
  from reconcile_alternate[where amount = amount and nm = "cd_name details",
      OF steady up norow pi ch alt' A stub_up stub_free A_up]
  obtain s' where
    r: "reconcile wc pf env version ?sess cri token amount mail (cd_name details) s =
          (Returned (textResponse 200 ''Payment processed successfully''), s')"
    and r1: "rowOf s' (shardName version (getDOName cri)) token = Some (stubRow token A)"
    and r2: "rowOf s' (shardName version (getDOName (encryptToken wc A (DB_SECRET env)))) A =
                map_option (\<lambda>r. r\<lparr>balance := balance r + amount, email := Some mail,
                                   name := or_null (cd_name details)\<rparr>)
                  (rowOf s (shardName version (getDOName (encryptToken wc A (DB_SECRET env)))) A)"
    by blast
  have "checkoutSessionCompleted wc pf env version ?sess s =
          reconcile wc pf env version ?sess cri token amount mail (cd_name details) s"
    using paid cri details secret dec
    by (simp add: checkoutSessionCompleted_def)
  with handleStripeWebhook_event[OF body sg event] r
  have "handleStripeWebhook wc pf env version req s =
          (Returned (textResponse 200 ''Payment processed successfully''), s')"
    by simp
  with r1 r2 A_row show ?thesis
    by (auto simp: stubRow_def)
qed


lemma example_decrypt:
  "take 3 token \<noteq> bom \<Longrightarrow>
   decryptToken example_webcrypto
     (encryptToken example_webcrypto token (DB_SECRET example_env)) (DB_SECRET example_env) =
   Inr token"
  by (rule roundtrip_without_bom[OF example_webcrypto_ok])

lemma example_current_rows:
  "rowOf example_current_store example_shard ''T1'' = Some example_current_user"
  "k \<noteq> ''T1'' \<Longrightarrow> rowOf example_current_store m k = None"
  "m \<notin> unavailable example_current_store"
  by (simp_all add: rowOf_def example_current_store_def example_current_user_def example_user_def)

lemma example_current_aggregate:
  "tables example_current_store (shardName ''1'' AGGREGATE_NAME) = [example_current_user]"
  by (simp add: example_current_store_def)

theorem payment_merges_into_alternate_identity_witness:
  "decryptToken example_webcrypto
     (encryptToken example_webcrypto ''T2'' (DB_SECRET example_env)) (DB_SECRET example_env) =
     Inr ''T2'' \<and>
   rowOf example_current_store (shardName ''1'' AGGREGATE_NAME) ''T2'' = None \<and>
   find (\<lambda>r. card_fingerprint r = Some ''F1'')
     (tables example_current_store (shardName ''1'' AGGREGATE_NAME)) = Some example_current_user \<and>
   access_token example_current_user = ''T1'' \<and> balance example_current_user = 500 \<and>
   (\<exists>s'. handleStripeWebhook example_webcrypto (example_stripe (example_checkout ''T2'' 300))
            example_env ''1'' example_webhook_request example_current_store =
            (Returned (textResponse 200 ''Payment processed successfully''), s') \<and>
         rowOf s' (shardName ''1'' (getDOName (encryptToken example_webcrypto ''T2''
                                                (DB_SECRET example_env)))) ''T2'' =
           Some \<lparr>access_token = ''T2'', verified_user_access_token = Some ''T1'',
                 client_reference_id = None, name = None, balance = 0, email = None,
                 card_fingerprint = None, verified_email = None\<rparr> \<and>
         rowOf s' example_shard ''T1'' = Some (example_current_user\<lparr>balance := 800\<rparr>))"
proof -
  let ?sess = "example_checkout ''T2'' 300"
  let ?pf = "example_stripe ?sess"
  let ?cri = "encryptToken example_webcrypto ''T2'' (DB_SECRET example_env)"
  let ?event = "\<lparr>event_type = ''checkout.session.completed'', event_object = ?sess\<rparr>"
  let ?pmd = "Some \<lparr>pmd_type = ''card'', pmd_card_fingerprint = Some ''F1''\<rparr>"
  have body: "request_body example_webhook_request = Some ''{}''"
    and sg: "stripe_signature example_webhook_request = Some ''t=1,v1=0a''" "''t=1,v1=0a'' \<noteq> []"
    by (simp_all add: example_webhook_request_def)
  have event: "constructEventAsync ?pf ''{}'' ''t=1,v1=0a''
                 (STRIPE_WEBHOOK_SIGNING_SECRET example_env) = Inr ?event"
    "event_type ?event = ''checkout.session.completed''"
    by (simp_all add: example_stripe_def)
  have paid: "payment_status (event_object ?event) = ''paid''"
    "amount_total (event_object ?event) = Some 300" "(300::int) \<noteq> 0"
    by (simp_all add: example_checkout_def)
  have cri: "session_client_reference_id (event_object ?event) = Some ?cri" "?cri \<noteq> []"
    by (simp_all add: example_checkout_def encryptToken_nonempty[OF example_webcrypto_ok])
  have details: "session_customer_details (event_object ?event) =
                   Some \<lparr>cd_email = Some ''ann@example.com'', cd_name = Some ''Ann''\<rparr>"
    "cd_email \<lparr>cd_email = Some ''ann@example.com'', cd_name = Some ''Ann''\<rparr> =
       Some ''ann@example.com''" "''ann@example.com'' \<noteq> []"
    by (simp_all add: example_checkout_def)
  have secret: "DB_SECRET example_env \<noteq> []"
    by (simp add: example_env_def)
  have dec: "decryptToken example_webcrypto ?cri (DB_SECRET example_env) = Inr ''T2''"
    by (rule example_decrypt) (simp add: bom_def)
  have up: "shardName ''1'' AGGREGATE_NAME \<notin> unavailable example_current_store"
    by (rule example_current_rows)
  have norow: "rowOf example_current_store (shardName ''1'' AGGREGATE_NAME) ''T2'' = None"
    by (rule example_current_rows) simp
  have pi: "paymentIntents_retrieve ?pf (payment_intent (event_object ?event)) = Inr (Some ''ch_1'')"
    by (simp add: example_stripe_def)
  have ch: "charges_retrieve ?pf (Some ''ch_1'') = Inr ?pmd"
    by (simp add: example_stripe_def)
  have fp: "find (\<lambda>r. card_fingerprint r = Some ''F1'')
              (tables example_current_store (shardName ''1'' AGGREGATE_NAME)) =
            Some example_current_user"
    by (simp add: example_current_aggregate) (simp add: example_current_user_def example_user_def)
  have tk: "access_token example_current_user = ''T1''"
    and bal: "balance example_current_user = 500"
    and nm: "name example_current_user = Some ''Ann''"
    and em: "email example_current_user = Some ''ann@example.com''"
    by (simp_all add: example_current_user_def example_user_def)
  have alt: "(let userFromEmail =
                     (case ?pmd of
                        None \<Rightarrow> None
                      | Some d \<Rightarrow>
                          if pmd_type d = ''link''
                          then find (\<lambda>r. verified_email r = Some ''ann@example.com'')
                                 (tables example_current_store (shardName ''1'' AGGREGATE_NAME))
                          else None);
                   userFromFingerprint =
                     (case ?pmd of
                        None \<Rightarrow> None
                      | Some d \<Rightarrow>
                          if truthy (pmd_card_fingerprint d)
                          then find (\<lambda>r. card_fingerprint r = pmd_card_fingerprint d)
                                 (tables example_current_store (shardName ''1'' AGGREGATE_NAME))
                          else None)
               in if truthy (map_option access_token userFromEmail)
                  then map_option access_token userFromEmail
                  else map_option access_token userFromFingerprint) = Some ''T1''"
    by (simp add: fp tk)
  have A: "''T1'' \<noteq> []" by simp
  have stub_up: "shardName ''1'' (getDOName ?cri) \<notin> unavailable example_current_store"
    by (rule example_current_rows)
  have stub_free: "rowOf example_current_store (shardName ''1'' (getDOName ?cri)) ''T2'' = None"
    by (rule example_current_rows) simp
  have A_up: "shardName ''1'' (getDOName (encryptToken example_webcrypto ''T1''
                (DB_SECRET example_env))) \<notin> unavailable example_current_store"
    by (rule example_current_rows)
  have A_row: "rowOf example_current_store
                 (shardName ''1'' (getDOName (encryptToken example_webcrypto ''T1''
                    (DB_SECRET example_env)))) ''T1'' = Some example_current_user"
    using example_current_rows(1) by (simp add: example_shard_def)
  have same: "example_current_user\<lparr>balance := balance example_current_user + 300,
                 email := Some ''ann@example.com'',
                 name := or_null (Some ''Ann'')\<rparr> =
              example_current_user\<lparr>balance := 800\<rparr>"
    by (simp add: or_null_def example_current_user_def example_user_def)
  have steady: "outages example_current_store = []"
    by (simp add: example_current_store_def)
  from payment_merges_into_alternate_identity [where version = "''1''",
      OF body sg event paid cri details secret dec up norow pi ch alt A stub_up stub_free
        A_up A_row steady]
  have "\<exists>s'. handleStripeWebhook example_webcrypto ?pf example_env ''1'' example_webhook_request
              example_current_store =
            (Returned (textResponse 200 ''Payment processed successfully''), s') \<and>
         rowOf s' (shardName ''1'' (getDOName ?cri)) ''T2'' =
           Some \<lparr>access_token = ''T2'', verified_user_access_token = Some ''T1'',
                 client_reference_id = None, name = None, balance = 0, email = None,
                 card_fingerprint = None, verified_email = None\<rparr> \<and>
         rowOf s' example_shard ''T1'' = Some (example_current_user\<lparr>balance := 800\<rparr>)"
    by (simp add: same example_shard_def)
  with dec norow fp tk bal show ?thesis
    by blast
qed


text \<open>
  C6, as the code has it. A verified \<open>checkout.session.completed\<close> event that is not
  paid, has no amount or the amount 0, has no (or an empty) \<open>client_reference_id\<close> or
  payer email, or whose \<open>client_reference_id\<close> does not decrypt: the handler leaves the
  store as it is and returns a response. Its status is 200 when only the decryption
  fails, and 400 otherwise.
\<close>

theorem rejected_payment_event_leaves_store:
  assumes body: "request_body req = Some b"
    and sg: "stripe_signature req = Some sg" "sg \<noteq> []"
    and event: "constructEventAsync pf b sg (STRIPE_WEBHOOK_SIGNING_SECRET env) = Inr event"
      "event_type event = ''checkout.session.completed''"
    and rejected:
      "payment_status (event_object event) \<noteq> ''paid'' \<or>
       amount_total (event_object event) = None \<or> amount_total (event_object event) = Some 0 \<or>
       \<not> truthy (session_client_reference_id (event_object event)) \<or>
       \<not> truthy (case session_customer_details (event_object event) of
                    None \<Rightarrow> None | Some d \<Rightarrow> cd_email d) \<or>
       (\<exists>cri e. session_client_reference_id (event_object event) = Some cri \<and>
                decryptToken wc cri (DB_SECRET env) = Inl e)"
  shows "\<exists>r. handleStripeWebhook wc pf env version req s = (Returned r, s) \<and>
             status r =
               (if payment_status (event_object event) = ''paid'' \<and>
                   amount_total (event_object event) \<noteq> None \<and>
                   amount_total (event_object event) \<noteq> Some 0 \<and>
                   truthy (session_client_reference_id (event_object event)) \<and>
                   truthy (case session_customer_details (event_object event) of
                             None \<Rightarrow> None | Some d \<Rightarrow> cd_email d) \<and>
                   DB_SECRET env \<noteq> []
                then 200 else 400)"
proof -
  from rejected have
    "payment_status (event_object event) \<noteq> ''paid'' \<or>
     amount_total (event_object event) = None \<or> amount_total (event_object event) = Some 0 \<or>
     \<not> truthy (session_client_reference_id (event_object event)) \<or>
     \<not> truthy (case session_customer_details (event_object event) of
                  None \<Rightarrow> None | Some d \<Rightarrow> cd_email d) \<or>
     DB_SECRET env = [] \<or>
     (\<exists>cri e. session_client_reference_id (event_object event) = Some cri \<and>
              decryptToken wc cri (DB_SECRET env) = Inl e)"
    by blast
  from checkout_rejected[OF this] handleStripeWebhook_event[OF body sg event]
  show ?thesis by simp
qed

lemma example_bad_identifier:
  "decryptToken example_webcrypto ''!!!'' (DB_SECRET example_env) = Inl InvalidCharacterError"
  by (simp add: decryptToken_def base64UrlToArrayBuffer_def replaceAll_def padEnd_def atob_def
        ascii_whitespace_def strip_padding_def b64index_def b64chars_def Let_def)

theorem rejected_payment_event_leaves_store_witness:
  "request_body example_webhook_request = Some ''{}'' \<and>
   stripe_signature example_webhook_request = Some ''t=1,v1=0a'' \<and>
   decryptToken example_webcrypto ''!!!'' (DB_SECRET example_env) = Inl InvalidCharacterError \<and>
   (\<exists>r. handleStripeWebhook example_webcrypto
           (example_stripe ((example_checkout ''T1'' 300)
                              \<lparr>session_client_reference_id := Some ''!!!''\<rparr>))
           example_env ''1'' example_webhook_request example_current_store =
         (Returned r, example_current_store) \<and> status r = 200)"
proof -
  let ?sess = "(example_checkout ''T1'' 300)\<lparr>session_client_reference_id := Some ''!!!''\<rparr>"
  let ?pf = "example_stripe ?sess"
  let ?event = "\<lparr>event_type = ''checkout.session.completed'', event_object = ?sess\<rparr>"
  have body: "request_body example_webhook_request = Some ''{}''"
    and sg: "stripe_signature example_webhook_request = Some ''t=1,v1=0a''" "''t=1,v1=0a'' \<noteq> []"
    by (simp_all add: example_webhook_request_def)
  have event: "constructEventAsync ?pf ''{}'' ''t=1,v1=0a''
                 (STRIPE_WEBHOOK_SIGNING_SECRET example_env) = Inr ?event"
    "event_type ?event = ''checkout.session.completed''"
    by (simp_all add: example_stripe_def)
  have rejected:
      "payment_status (event_object ?event) \<noteq> ''paid'' \<or>
       amount_total (event_object ?event) = None \<or> amount_total (event_object ?event) = Some 0 \<or>
       \<not> truthy (session_client_reference_id (event_object ?event)) \<or>
       \<not> truthy (case session_customer_details (event_object ?event) of
                    None \<Rightarrow> None | Some d \<Rightarrow> cd_email d) \<or>
       (\<exists>cri e. session_client_reference_id (event_object ?event) = Some cri \<and>
                decryptToken example_webcrypto cri (DB_SECRET example_env) = Inl e)"
    using example_bad_identifier by simp
  from rejected_payment_event_leaves_store [where version = "''1''"
      and s = example_current_store, OF body sg event rejected]
  have "\<exists>r. handleStripeWebhook example_webcrypto ?pf example_env ''1'' example_webhook_request
             example_current_store = (Returned r, example_current_store) \<and> status r = 200"
    by (simp add: example_checkout_def example_env_def)
  with body sg(1) example_bad_identifier show ?thesis
    by blast
qed

text \<open>An accepted event credits the existing row of its access token.\<close>

lemma webhook_credits_existing:
  assumes body: "request_body req = Some b"
    and sg: "stripe_signature req = Some sg" "sg \<noteq> []"
    and event: "constructEventAsync pf b sg (STRIPE_WEBHOOK_SIGNING_SECRET env) = Inr event"
      "event_type event = ''checkout.session.completed''"
    and paid: "payment_status (event_object event) = ''paid''"
      "amount_total (event_object event) = Some amount" "amount \<noteq> 0"
    and cri: "session_client_reference_id (event_object event) = Some cri" "cri \<noteq> []"
    and details: "session_customer_details (event_object event) = Some details"
      "cd_email details = Some mail" "mail \<noteq> []"
    and secret: "DB_SECRET env \<noteq> []"
    and dec: "decryptToken wc cri (DB_SECRET env) = Inr token"
    and up: "shardName version AGGREGATE_NAME \<notin> unavailable s"
    and aggrow: "rowOf s (shardName version AGGREGATE_NAME) token = Some r0"
    and shard_up: "shardName version (getDOName cri) \<notin> unavailable s"
    and steady: "outages s = []"
  shows "\<exists>s'. handleStripeWebhook wc pf env version req s =
                 (Returned (textResponse 200 ''Payment processed successfully''), s') \<and>
              rowOf s' (shardName version (getDOName cri)) token =
                map_option (\<lambda>r. r\<lparr>balance := balance r + amount, email := Some mail,
                                   name := or_null (cd_name details)\<rparr>)
                  (rowOf s (shardName version (getDOName cri)) token)"
proof -
  let ?f = "\<lambda>r. r\<lparr>balance := balance r + amount, email := Some mail,
                   name := or_null (cd_name details)\<rparr>"
  from exec_update_ok[OF shard_up] obtain res1 s1 where
    upd: "exec (userClient version (getDOName cri))
            (UpdateWhere ?f (\<lambda>r. access_token r = token)) s = (Inr res1, s1)"
    by blast
  have row: "rowOf s1 (shardName version (getDOName cri)) token =
               map_option ?f (rowOf s (shardName version (getDOName cri)) token)"
    using rowOf_exec_update[OF upd, where m = "shardName version (getDOName cri)" and k = token]
      user_shard_not_aggregate[of version cri]
    by simp
  have "checkoutSessionCompleted wc pf env version (event_object event) s =
          reconcile wc pf env version (event_object event) cri token amount mail
            (cd_name details) s"
    using paid cri details secret dec
    by (simp add: checkoutSessionCompleted_def)
  also have "\<dots> = (Returned (textResponse 200 ''Payment processed successfully''), s1)"
    using upd by (simp add: reconcile_existing[OF steady up aggrow] creditStatement_def)
  finally have "handleStripeWebhook wc pf env version req s =
                  (Returned (textResponse 200 ''Payment processed successfully''), s1)"
    using handleStripeWebhook_event[OF body sg event] by simp
  with row show ?thesis by blast
qed

text \<open>
  C6 as stated fails for a negative amount: the check \<open>!session.amount_total\<close> lets it
  pass, and the event lowers the balance of the stored row from 500 to 200.
\<close>

theorem negative_amount_mutates_store:
  "amount_total (example_checkout ''T1'' (- 300)) = Some (- 300) \<and>
   rowOf example_current_store example_shard ''T1'' = Some example_current_user \<and>
   balance example_current_user = 500 \<and>
   fst (handleStripeWebhook example_webcrypto (example_stripe (example_checkout ''T1'' (- 300)))
          example_env ''1'' example_webhook_request example_current_store) =
     Returned (textResponse 200 ''Payment processed successfully'') \<and>
   rowOf (snd (handleStripeWebhook example_webcrypto
                 (example_stripe (example_checkout ''T1'' (- 300)))
                 example_env ''1'' example_webhook_request example_current_store))
     example_shard ''T1'' = Some (example_current_user\<lparr>balance := 200\<rparr>)"
proof -
  let ?sess = "example_checkout ''T1'' (- 300)"
  let ?pf = "example_stripe ?sess"
  let ?cri = "encryptToken example_webcrypto ''T1'' (DB_SECRET example_env)"
  let ?event = "\<lparr>event_type = ''checkout.session.completed'', event_object = ?sess\<rparr>"
  have body: "request_body example_webhook_request = Some ''{}''"
    and sg: "stripe_signature example_webhook_request = Some ''t=1,v1=0a''" "''t=1,v1=0a'' \<noteq> []"
    by (simp_all add: example_webhook_request_def)
  have event: "constructEventAsync ?pf ''{}'' ''t=1,v1=0a''
                 (STRIPE_WEBHOOK_SIGNING_SECRET example_env) = Inr ?event"
    "event_type ?event = ''checkout.session.completed''"
    by (simp_all add: example_stripe_def)
  have paid: "payment_status (event_object ?event) = ''paid''"
    "amount_total (event_object ?event) = Some (- 300)" "(- 300::int) \<noteq> 0"
    by (simp_all add: example_checkout_def)
  have cri: "session_client_reference_id (event_object ?event) = Some ?cri" "?cri \<noteq> []"
    by (simp_all add: example_checkout_def encryptToken_nonempty[OF example_webcrypto_ok])
  have details: "session_customer_details (event_object ?event) =
                   Some \<lparr>cd_email = Some ''ann@example.com'', cd_name = Some ''Ann''\<rparr>"
    "cd_email \<lparr>cd_email = Some ''ann@example.com'', cd_name = Some ''Ann''\<rparr> =
       Some ''ann@example.com''" "''ann@example.com'' \<noteq> []"
    by (simp_all add: example_checkout_def)
  have secret: "DB_SECRET example_env \<noteq> []"
    by (simp add: example_env_def)
  have dec: "decryptToken example_webcrypto ?cri (DB_SECRET example_env) = Inr ''T1''"
    by (rule example_decrypt) (simp add: bom_def)
  have up: "shardName ''1'' AGGREGATE_NAME \<notin> unavailable example_current_store"
    by (rule example_current_rows)
  have aggrow: "rowOf example_current_store (shardName ''1'' AGGREGATE_NAME) ''T1'' =
                  Some example_current_user"
    by (simp add: rowOf_def example_current_aggregate)
       (simp add: example_current_user_def example_user_def)
  have shard_up: "shardName ''1'' (getDOName ?cri) \<notin> unavailable example_current_store"
    by (rule example_current_rows)
  have bal: "balance example_current_user = 500"
    by (simp add: example_current_user_def example_user_def)
  have same: "example_current_user\<lparr>balance := balance example_current_user - 300,
                 email := Some ''ann@example.com'', name := or_null (Some ''Ann'')\<rparr> =
              example_current_user\<lparr>balance := 200\<rparr>"
    by (simp add: or_null_def example_current_user_def example_user_def)
  have steady: "outages example_current_store = []"
    by (simp add: example_current_store_def)
  from webhook_credits_existing [where version = "''1''",
      OF body sg event paid cri details secret dec up aggrow shard_up steady]
  obtain s' where
    r: "handleStripeWebhook example_webcrypto ?pf example_env ''1'' example_webhook_request
          example_current_store =
        (Returned (textResponse 200 ''Payment processed successfully''), s')"
    and row: "rowOf s' example_shard ''T1'' = Some (example_current_user\<lparr>balance := 200\<rparr>)"
    using example_current_rows(1)
    by (auto simp: example_shard_def same)
  from r row bal example_current_rows(1) show ?thesis
    by (simp add: example_checkout_def)
qed

end
